theory Spec2Isabelle
  imports Complex_Main "HOL-Library.Word"
begin

section \<open>Landing Throttle Manager: the state machine of Main.cpp\<close>

text \<open>
  The plugin keeps two globals, \<open>CurrentState\<close> and \<open>DeactivationRequested\<close>, and is
  driven by three callbacks of the host simulator: the flight loop callback
  \<open>StateMachine\<close>, the command handler \<open>EnableCmdHandler\<close> and the menu handler
  \<open>MenuHandlerCallback\<close>. Every callback is modelled as a function from the simulator's
  data at the moment of the call and the world before the call to the world after it.
\<close>

subsection \<open>C floats\<close>

text \<open>
  A C \<open>float\<close> is an IEEE 754 single: one sign bit, eight bits of biased exponent and
  23 bits of fraction. The comparisons of C are defined on the value the pattern stands
  for; every comparison with a NaN is false, except \<open>!=\<close>, which is true. The two
  infinities are given the magnitude \<open>2 ^ 128\<close>, which is above every finite single, so
  that they order as IEEE 754 says.
\<close>

type_synonym float = "32 word"

definition sign_bit :: "float \<Rightarrow> bool" where
  "sign_bit x = bit x 31"

definition biased_exponent :: "float \<Rightarrow> nat" where
  "biased_exponent x = unat (take_bit 8 (drop_bit 23 x))"

definition fraction :: "float \<Rightarrow> nat" where
  "fraction x = unat (take_bit 23 x)"

definition is_nan :: "float \<Rightarrow> bool" where
  "is_nan x \<longleftrightarrow> biased_exponent x = 255 \<and> fraction x \<noteq> 0"

definition float_val :: "float \<Rightarrow> real" where
  "float_val x =
     (if sign_bit x then - 1 else 1) *
     (if biased_exponent x = 0 then real (fraction x) * 2
      else real (2 ^ 23 + fraction x) * 2 ^ biased_exponent x) / 2 ^ 150"

definition flt_lt :: "float \<Rightarrow> float \<Rightarrow> bool" where
  "flt_lt x y \<longleftrightarrow> \<not> is_nan x \<and> \<not> is_nan y \<and> float_val x < float_val y"

definition flt_le :: "float \<Rightarrow> float \<Rightarrow> bool" where
  "flt_le x y \<longleftrightarrow> \<not> is_nan x \<and> \<not> is_nan y \<and> float_val x \<le> float_val y"

definition flt_gt :: "float \<Rightarrow> float \<Rightarrow> bool" where
  "flt_gt x y \<longleftrightarrow> flt_lt y x"

definition flt_ge :: "float \<Rightarrow> float \<Rightarrow> bool" where
  "flt_ge x y \<longleftrightarrow> flt_le y x"

definition flt_eq :: "float \<Rightarrow> float \<Rightarrow> bool" where
  "flt_eq x y \<longleftrightarrow> \<not> is_nan x \<and> \<not> is_nan y \<and> float_val x = float_val y"

definition flt_ne :: "float \<Rightarrow> float \<Rightarrow> bool" where
  "flt_ne x y \<longleftrightarrow> \<not> flt_eq x y"

text \<open>
  A single compared with a number, as the spec writes its conditions. A NaN is not at
  most, at least, greater than, smaller than or equal to any number.
\<close>

definition at_most :: "float \<Rightarrow> real \<Rightarrow> bool" where
  "at_most x r \<longleftrightarrow> \<not> is_nan x \<and> float_val x \<le> r"

definition at_least :: "float \<Rightarrow> real \<Rightarrow> bool" where
  "at_least x r \<longleftrightarrow> \<not> is_nan x \<and> r \<le> float_val x"

definition greater_than :: "float \<Rightarrow> real \<Rightarrow> bool" where
  "greater_than x r \<longleftrightarrow> \<not> is_nan x \<and> r < float_val x"

definition smaller_than :: "float \<Rightarrow> real \<Rightarrow> bool" where
  "smaller_than x r \<longleftrightarrow> \<not> is_nan x \<and> float_val x < r"

definition equal_to :: "float \<Rightarrow> real \<Rightarrow> bool" where
  "equal_to x r \<longleftrightarrow> \<not> is_nan x \<and> float_val x = r"

subsection \<open>Configuration\<close>

text \<open>The macros of the configuration section, as the singles the compiler makes of them.\<close>

definition MIN_SPEED_REVERSE_THRUST :: float where
  "MIN_SPEED_REVERSE_THRUST = 0x42700000" \<comment> \<open>\<open>60.0f\<close>\<close>

definition MAX_AIRSPEED :: float where
  "MAX_AIRSPEED = 0x43200000" \<comment> \<open>\<open>160.0f\<close>\<close>

definition MIN_FLAP_ANGLE :: float where
  "MIN_FLAP_ANGLE = 0x41900000" \<comment> \<open>\<open>18.0f\<close>\<close>

definition MAX_ALTITUDE :: float where
  "MAX_ALTITUDE = 0x43186666" \<comment> \<open>\<open>152.4f\<close>, the single nearest to 152.4\<close>

definition STATE_MACHINE_EXECUTION_INTERVAL :: float where
  "STATE_MACHINE_EXECUTION_INTERVAL = 0x3E800000" \<comment> \<open>\<open>0.25f\<close>\<close>

definition GEAR_DOWN_RATIO :: float where
  "GEAR_DOWN_RATIO = 0x3F800000" \<comment> \<open>\<open>1.0f\<close>\<close>

definition float_zero :: float where
  "float_zero = 0" \<comment> \<open>the \<open>int\<close> literal \<open>0\<close>, converted to \<open>float\<close> by the comparison\<close>

definition MENU_ITEM_ID_ENABLE :: int where
  "MENU_ITEM_ID_ENABLE = 1"

definition MENU_ITEM_ID_STOP :: int where
  "MENU_ITEM_ID_STOP = 2"

text \<open>
  \<open>TRUE\<close> and \<open>FALSE\<close> are not defined in Main.cpp; they come from the platform headers,
  where \<open>TRUE\<close> is 1. On the \<open>bool\<close> \<open>DeactivationRequested\<close> they are \<open>True\<close> and
  \<open>False\<close>.
\<close>

definition TRUE :: int where
  "TRUE = 1"

subsection \<open>The simulator and the world\<close>

datatype states_t =
    WAIT_FOR_USER
  | START
  | THROTTLE_DOWN
  | WAIT_FOR_IDLE_THROTTLE
  | WAIT_FOR_TOUCHDOWN
  | APPLY_REVERSE
  | WAIT_FOR_END_OF_REVERSE

datatype command = ReverseThrustCmd | ThrottleDownCmd

datatype dataref =
    ThrottleRatioRef
  | IndicatedAirSpeedRef
  | AllWheelsOnGroundRef
  | FlapsAngleRef
  | GearDeployRatioRef
  | AltitudeAboveGroundRef

text \<open>
  What the simulator answers when a data reference is read. The flap angle and the gear
  ratio are arrays of the simulator, of which the plugin reads element 0 only, so they are
  given by that element.
\<close>

record sim =
  throttle_ratio_all :: float
  indicated_airspeed2 :: float
  onground_all :: int
  flap1_deg :: float
  deploy_ratio :: float
  y_agl :: float

datatype arg = ArgF float | ArgS string

text \<open>
  The calls the plugin makes into the simulator, in the order they are made.
  \<open>Diagnostic\<close> is one call of \<open>Diagnostic_printf\<close>, with its format string and its
  arguments left unformatted.
\<close>

datatype event =
    GetData dataref
  | CommandBegin command
  | CommandEnd command
  | SpeakString string
  | Diagnostic string "arg list"

text \<open>
  The world: the two globals of the plugin, the two commands of the simulator that the
  plugin holds down (a command is held from \<open>XPLMCommandBegin\<close> until
  \<open>XPLMCommandEnd\<close>; ending a command that is not held changes nothing), and the trace
  of calls.
\<close>

record world =
  CurrentState :: states_t
  DeactivationRequested :: bool
  ThrottleDownHeld :: bool
  ReverseThrustHeld :: bool
  trace :: "event list"

definition emit :: "event \<Rightarrow> world \<Rightarrow> world" where
  "emit e w = w\<lparr>trace := trace w @ [e]\<rparr>"

definition XPLMGetDataf :: "dataref \<Rightarrow> sim \<Rightarrow> world \<Rightarrow> float \<times> world" where
  "XPLMGetDataf r s w =
     ((case r of
         ThrottleRatioRef \<Rightarrow> throttle_ratio_all s
       | IndicatedAirSpeedRef \<Rightarrow> indicated_airspeed2 s
       | AltitudeAboveGroundRef \<Rightarrow> y_agl s
       | _ \<Rightarrow> 0),
      emit (GetData r) w)"

definition XPLMGetDatai :: "dataref \<Rightarrow> sim \<Rightarrow> world \<Rightarrow> int \<times> world" where
  "XPLMGetDatai r s w =
     ((case r of AllWheelsOnGroundRef \<Rightarrow> onground_all s | _ \<Rightarrow> 0),
      emit (GetData r) w)"

text \<open>\<open>XPLMGetDatavf(r, buf, 0, 1)\<close>: element 0 of the array.\<close>

definition XPLMGetDatavf :: "dataref \<Rightarrow> sim \<Rightarrow> world \<Rightarrow> float \<times> world" where
  "XPLMGetDatavf r s w =
     ((case r of
         FlapsAngleRef \<Rightarrow> flap1_deg s
       | GearDeployRatioRef \<Rightarrow> deploy_ratio s
       | _ \<Rightarrow> 0),
      emit (GetData r) w)"

definition XPLMCommandBegin :: "command \<Rightarrow> world \<Rightarrow> world" where
  "XPLMCommandBegin c w =
     emit (CommandBegin c)
       (case c of
          ThrottleDownCmd \<Rightarrow> w\<lparr>ThrottleDownHeld := True\<rparr>
        | ReverseThrustCmd \<Rightarrow> w\<lparr>ReverseThrustHeld := True\<rparr>)"

definition XPLMCommandEnd :: "command \<Rightarrow> world \<Rightarrow> world" where
  "XPLMCommandEnd c w =
     emit (CommandEnd c)
       (case c of
          ThrottleDownCmd \<Rightarrow> w\<lparr>ThrottleDownHeld := False\<rparr>
        | ReverseThrustCmd \<Rightarrow> w\<lparr>ReverseThrustHeld := False\<rparr>)"

definition XPLMSpeakString :: "string \<Rightarrow> world \<Rightarrow> world" where
  "XPLMSpeakString str w = emit (SpeakString str) w"

definition Diagnostic_printf :: "string \<Rightarrow> arg list \<Rightarrow> world \<Rightarrow> world" where
  "Diagnostic_printf str lst w = emit (Diagnostic str lst) w"

subsection \<open>The state machine\<close>

text \<open>
  \<open>StateMachine\<close> is the flight loop callback: one pass through the \<open>switch\<close> on
  \<open>CurrentState\<close>. Its arguments \<open>elapsedMe\<close>, \<open>elapsedSim\<close>, \<open>counter\<close> and
  \<open>refcon\<close> are not used. It returns the time to the next call.
\<close>

definition StateMachine :: "sim \<Rightarrow> world \<Rightarrow> float \<times> world" where
  "StateMachine s w =
     (STATE_MACHINE_EXECUTION_INTERVAL,
      (case CurrentState w of
         WAIT_FOR_USER \<Rightarrow> w
       | START \<Rightarrow>
           (let (ThrottleRatio, w1) = XPLMGetDataf ThrottleRatioRef s w in
            if flt_gt ThrottleRatio float_zero then
              Diagnostic_printf
                ''Going to throttle down as we are not at idle throttle\<newline>'' []
                (w1\<lparr>CurrentState := THROTTLE_DOWN\<rparr>)
            else
              Diagnostic_printf
                ''Already at idle throttle, waiting for touch down of all three wheels\<newline>'' []
                (w1\<lparr>CurrentState := WAIT_FOR_TOUCHDOWN\<rparr>))
       | THROTTLE_DOWN \<Rightarrow>
           (let w1 = Diagnostic_printf ''Throttling down, waiting for idle throttle\<newline>'' [] w;
                w2 = XPLMCommandBegin ThrottleDownCmd w1
            in w2\<lparr>CurrentState := WAIT_FOR_IDLE_THROTTLE\<rparr>)
       | WAIT_FOR_IDLE_THROTTLE \<Rightarrow>
           (if DeactivationRequested w = True then
              (let w1 = XPLMCommandEnd ThrottleDownCmd w;
                   w2 = w1\<lparr>DeactivationRequested := False, CurrentState := WAIT_FOR_USER\<rparr>
               in Diagnostic_printf ''Deactivation while waiting for idle throttle\<newline>'' [] w2)
            else
              (let (ThrottleRatio, w1) = XPLMGetDataf ThrottleRatioRef s w in
               if flt_eq ThrottleRatio float_zero then
                 (let w2 = XPLMCommandEnd ThrottleDownCmd w1;
                      w3 = Diagnostic_printf
                             ''Throttle now at idle, waiting for touch down of all three wheels\<newline>''
                             [] w2
                  in w3\<lparr>CurrentState := WAIT_FOR_TOUCHDOWN\<rparr>)
               else w1))
       | WAIT_FOR_TOUCHDOWN \<Rightarrow>
           (if DeactivationRequested w = True then
              (let w1 = XPLMCommandEnd ReverseThrustCmd w;
                   w2 = w1\<lparr>DeactivationRequested := False, CurrentState := WAIT_FOR_USER\<rparr>
               in Diagnostic_printf ''Deactivation while waiting for touch down\<newline>'' [] w2)
            else
              (let (AllWheelsOnGround, w1) = XPLMGetDatai AllWheelsOnGroundRef s w in
               if AllWheelsOnGround = TRUE then
                 (let w2 = Diagnostic_printf
                             ''All wheels on ground, applying reverse thrust\<newline>'' [] w1
                  in w2\<lparr>CurrentState := APPLY_REVERSE\<rparr>)
               else w1))
       | APPLY_REVERSE \<Rightarrow>
           (let (IndicatedAirSpeed, w1) = XPLMGetDataf IndicatedAirSpeedRef s w in
            if flt_gt IndicatedAirSpeed MIN_SPEED_REVERSE_THRUST then
              (let w2 = XPLMCommandBegin ReverseThrustCmd w1;
                   w3 = Diagnostic_printf
                          ''Indicated air speed=%f which is above the minimum of %f, waiting for end condition\<newline>''
                          [ArgF IndicatedAirSpeed, ArgF MIN_SPEED_REVERSE_THRUST] w2
               in w3\<lparr>CurrentState := WAIT_FOR_END_OF_REVERSE\<rparr>)
            else w1\<lparr>CurrentState := WAIT_FOR_USER\<rparr>)
       | WAIT_FOR_END_OF_REVERSE \<Rightarrow>
           (if DeactivationRequested w = True then
              (let w1 = XPLMCommandEnd ReverseThrustCmd w;
                   w2 = w1\<lparr>DeactivationRequested := False, CurrentState := WAIT_FOR_USER\<rparr>
               in Diagnostic_printf
                    ''Deactivation while waiting for end of reverse thrust\<newline>'' [] w2)
            else
              (let (IndicatedAirSpeed, w1) = XPLMGetDataf IndicatedAirSpeedRef s w in
               if flt_le IndicatedAirSpeed MIN_SPEED_REVERSE_THRUST then
                 (let w2 = XPLMCommandEnd ReverseThrustCmd w1;
                      w3 = Diagnostic_printf
                             ''Indicated air speed is %f, which is less than %f, end of reverse thrust\<newline>''
                             [ArgF IndicatedAirSpeed, ArgF MIN_SPEED_REVERSE_THRUST] w2
                  in w3\<lparr>CurrentState := WAIT_FOR_USER\<rparr>)
               else w1))))"

text \<open>The spec's \<open>tick()\<close>: the world after one call of the flight loop callback.\<close>

definition tick :: "sim \<Rightarrow> world \<Rightarrow> world" where
  "tick s w = snd (StateMachine s w)"

subsection \<open>Enabling and stopping\<close>

text \<open>
  \<open>strcat_s(dst, n, src)\<close> appends when the result and its terminator fit in \<open>n\<close>
  bytes; otherwise it empties \<open>dst\<close> and calls the invalid parameter handler.
  \<open>the_errors\<close> is the buffer \<open>Errors\<close> of \<open>Enable\<close> after its four conditional
  appends, each with its own comparison.
\<close>

definition strcat_s :: "string \<Rightarrow> nat \<Rightarrow> string \<Rightarrow> string" where
  "strcat_s dst n src = (if length dst + length src < n then dst @ src else [])"

definition the_errors :: "float \<Rightarrow> float \<Rightarrow> float \<Rightarrow> float \<Rightarrow> string" where
  "the_errors IndicatedAirSpeed FlapAngles0 GearDeployRatio0 AltitudeAboveGround =
     (let Errors = [];
          Errors = (if flt_gt IndicatedAirSpeed MAX_AIRSPEED
                    then strcat_s Errors 256 '' Airspeed too high'' else Errors);
          Errors = (if flt_lt FlapAngles0 MIN_FLAP_ANGLE
                    then strcat_s Errors 256 '' Flaps too low'' else Errors);
          Errors = (if flt_ne GearDeployRatio0 GEAR_DOWN_RATIO
                    then strcat_s Errors 256 '' Gear not down'' else Errors);
          Errors = (if flt_gt AltitudeAboveGround MAX_ALTITUDE
                    then strcat_s Errors 256 '' Altitude too high'' else Errors)
      in Errors)"

definition Enable :: "sim \<Rightarrow> world \<Rightarrow> world" where
  "Enable s w =
     (if CurrentState w = WAIT_FOR_USER then
        (let (IndicatedAirSpeed, w1) = XPLMGetDataf IndicatedAirSpeedRef s w;
             (FlapAngles0, w2) = XPLMGetDatavf FlapsAngleRef s w1;
             (GearDeployRatio0, w3) = XPLMGetDatavf GearDeployRatioRef s w2;
             (AltitudeAboveGround, w4) = XPLMGetDataf AltitudeAboveGroundRef s w3;
             w5 = Diagnostic_printf ''Enable requested by user\<newline>'' [] w4;
             w6 = Diagnostic_printf ''Current IAS=%f (require %f or below)\<newline>''
                    [ArgF IndicatedAirSpeed, ArgF MAX_AIRSPEED] w5;
             w7 = Diagnostic_printf ''Current flap angle=%f (require %f or above)\<newline>''
                    [ArgF FlapAngles0, ArgF MIN_FLAP_ANGLE] w6;
             w8 = Diagnostic_printf ''Current gears are down=%s (require yes)\<newline>''
                    [ArgS (if flt_eq GearDeployRatio0 GEAR_DOWN_RATIO then ''yes'' else ''no'')] w7;
             w9 = Diagnostic_printf ''Current altitude=%fm (require %fm or below)\<newline>''
                    [ArgF AltitudeAboveGround, ArgF MAX_ALTITUDE] w8
         in if flt_le IndicatedAirSpeed MAX_AIRSPEED \<and> flt_ge FlapAngles0 MIN_FLAP_ANGLE
               \<and> flt_eq GearDeployRatio0 GEAR_DOWN_RATIO
               \<and> flt_le AltitudeAboveGround MAX_ALTITUDE
            then
              Diagnostic_printf ''Conditions met, now enabled\<newline>'' []
                (w9\<lparr>DeactivationRequested := False, CurrentState := START\<rparr>)
            else
              (let Errors = the_errors IndicatedAirSpeed FlapAngles0 GearDeployRatio0
                              AltitudeAboveGround
               in if length Errors > 0 then XPLMSpeakString Errors w9 else w9))
      else XPLMSpeakString ''Already enabled'' w)"

text \<open>The handler of the custom command: phase 0 is the button going down.\<close>

definition EnableCmdHandler :: "int \<Rightarrow> sim \<Rightarrow> world \<Rightarrow> int \<times> world" where
  "EnableCmdHandler inPhase s w = (0, if inPhase = 0 then Enable s w else w)"

definition MenuHandlerCallback :: "int \<Rightarrow> sim \<Rightarrow> world \<Rightarrow> world" where
  "MenuHandlerCallback inItemRef s w =
     (if inItemRef = MENU_ITEM_ID_ENABLE then Enable s w
      else if inItemRef = MENU_ITEM_ID_STOP then
        (if CurrentState w \<noteq> WAIT_FOR_USER then
           Diagnostic_printf ''User requested deactivation\<newline>'' []
             (w\<lparr>DeactivationRequested := True\<rparr>)
         else w)
      else w)"

text \<open>
  The spec's operator intents: \<open>requestActivate()\<close> is \<open>Enable\<close>, reached from the
  command handler and from the menu; \<open>requestDeactivate()\<close> is the menu's
  "Stop and disable".
\<close>

definition requestActivate :: "sim \<Rightarrow> world \<Rightarrow> world" where
  "requestActivate s w = Enable s w"

definition requestDeactivate :: "sim \<Rightarrow> world \<Rightarrow> world" where
  "requestDeactivate s w = MenuHandlerCallback MENU_ITEM_ID_STOP s w"

subsection \<open>Runs\<close>

text \<open>
  The world when \<open>XPluginStart\<close> has returned: the initialisers of the globals, no
  command held, and the trace started afresh. The simulator then calls the three
  callbacks in any order, one at a time, each with the data of its moment.
\<close>

definition initial :: world where
  "initial = \<lparr>CurrentState = WAIT_FOR_USER, DeactivationRequested = False,
              ThrottleDownHeld = False, ReverseThrustHeld = False, trace = []\<rparr>"

datatype callback = FlightLoop | EnableCommand int | MenuChoice int

fun deliver :: "world \<Rightarrow> callback \<times> sim \<Rightarrow> world" where
  "deliver w (FlightLoop, s) = snd (StateMachine s w)"
| "deliver w (EnableCommand inPhase, s) = snd (EnableCmdHandler inPhase s w)"
| "deliver w (MenuChoice inItemRef, s) = MenuHandlerCallback inItemRef s w"

definition run :: "world \<Rightarrow> (callback \<times> sim) list \<Rightarrow> world" where
  "run w cs = foldl deliver w cs"

subsection \<open>Observations on worlds and runs\<close>

text \<open>What a callback added to the trace, and what was spoken in a piece of trace.\<close>

definition new_events :: "world \<Rightarrow> world \<Rightarrow> event list" where
  "new_events w w' = drop (length (trace w)) (trace w')"

definition spoken :: "event list \<Rightarrow> string list" where
  "spoken evs = concat (map (\<lambda>e. case e of SpeakString str \<Rightarrow> [str] | _ \<Rightarrow> []) evs)"

definition is_diagnostic :: "event \<Rightarrow> bool" where
  "is_diagnostic e = (case e of Diagnostic str lst \<Rightarrow> True | _ \<Rightarrow> False)"

text \<open>How often a command has been begun and ended since the plugin started.\<close>

definition begun :: "command \<Rightarrow> world \<Rightarrow> nat" where
  "begun c w = count_list (trace w) (CommandBegin c)"

definition ended :: "command \<Rightarrow> world \<Rightarrow> nat" where
  "ended c w = count_list (trace w) (CommandEnd c)"

text \<open>
  Which command is held in which state: the throttle command while waiting for idle
  throttle, the reverse thrust command while waiting for the end of reverse, none
  elsewhere.
\<close>

definition hold_inv :: "world \<Rightarrow> bool" where
  "hold_inv w \<longleftrightarrow>
     ThrottleDownHeld w = (CurrentState w = WAIT_FOR_IDLE_THROTTLE) \<and>
     ReverseThrustHeld w = (CurrentState w = WAIT_FOR_END_OF_REVERSE)"

text \<open>
  A callback that is an operator intent (anything but the flight loop), and one that
  reaches \<open>Enable\<close>.
\<close>

definition is_intent :: "callback \<times> sim \<Rightarrow> bool" where
  "is_intent c \<longleftrightarrow> fst c \<noteq> FlightLoop"

definition is_activation :: "callback \<times> sim \<Rightarrow> bool" where
  "is_activation c \<longleftrightarrow> fst c = EnableCommand 0 \<or> fst c = MenuChoice MENU_ITEM_ID_ENABLE"

text \<open>
  The states a run passes through, and an activation cycle: a run that starts outside
  \<open>WAIT_FOR_USER\<close> and is in \<open>WAIT_FOR_USER\<close> at its end for the first time.
\<close>

fun states_along :: "world \<Rightarrow> (callback \<times> sim) list \<Rightarrow> states_t list" where
  "states_along w [] = [CurrentState w]"
| "states_along w (c # cs) = CurrentState w # states_along (deliver w c) cs"

fun cycle_from :: "world \<Rightarrow> (callback \<times> sim) list \<Rightarrow> bool" where
  "cycle_from w [] = (CurrentState w = WAIT_FOR_USER)"
| "cycle_from w (c # cs) = (CurrentState w \<noteq> WAIT_FOR_USER \<and> cycle_from (deliver w c) cs)"

subsection \<open>The eligibility predicates, in the spec's words\<close>

text \<open>
  The four landing conditions with the numbers of the spec, named by the violation that
  is reported when one fails: airspeed at most 160, flap angle at least 18, gear ratio
  equal to 1.0, altitude at most 152.4.
\<close>

datatype violation = AirspeedTooHigh | FlapsTooLow | GearNotDown | AltitudeTooHigh

fun predicate_holds :: "sim \<Rightarrow> violation \<Rightarrow> bool" where
  "predicate_holds s AirspeedTooHigh = at_most (indicated_airspeed2 s) 160"
| "predicate_holds s FlapsTooLow = at_least (flap1_deg s) 18"
| "predicate_holds s GearNotDown = equal_to (deploy_ratio s) 1"
| "predicate_holds s AltitudeTooHigh = at_most (y_agl s) 152.4"

definition eligible :: "sim \<Rightarrow> bool" where
  "eligible s \<longleftrightarrow>
     predicate_holds s AirspeedTooHigh \<and> predicate_holds s FlapsTooLow \<and>
     predicate_holds s GearNotDown \<and> predicate_holds s AltitudeTooHigh"

definition failed_predicates :: "sim \<Rightarrow> violation list" where
  "failed_predicates s =
     filter (\<lambda>v. \<not> predicate_holds s v)
       [AirspeedTooHigh, FlapsTooLow, GearNotDown, AltitudeTooHigh]"

fun label :: "violation \<Rightarrow> string" where
  "label AirspeedTooHigh = '' Airspeed too high''"
| "label FlapsTooLow = '' Flaps too low''"
| "label GearNotDown = '' Gear not down''"
| "label AltitudeTooHigh = '' Altitude too high''"

definition advisory :: "violation list \<Rightarrow> string" where
  "advisory vs = concat (map label vs)"

subsection \<open>Snapshots and runs used as examples\<close>

text \<open>
  On approach: throttle 0.3, airspeed 150, wheels off the ground, flaps 20, gear 1.0,
  100 m above ground. The others differ from it in the fields named.
\<close>

definition on_approach :: sim where
  "on_approach = \<lparr>throttle_ratio_all = 0x3E99999A, indicated_airspeed2 = 0x43160000,
                  onground_all = 0, flap1_deg = 0x41A00000, deploy_ratio = 0x3F800000,
                  y_agl = 0x42C80000\<rparr>"

definition at_idle :: sim where
  "at_idle = on_approach\<lparr>throttle_ratio_all := 0\<rparr>"

definition pushing_back :: sim where
  "pushing_back = on_approach\<lparr>throttle_ratio_all := 0xBF800000\<rparr>" \<comment> \<open>throttle \<open>-1.0f\<close>\<close>

definition too_fast :: sim where
  "too_fast = on_approach\<lparr>indicated_airspeed2 := 0x432A0000\<rparr>" \<comment> \<open>airspeed \<open>170.0f\<close>\<close>

definition airspeed_nan :: sim where
  "airspeed_nan = on_approach\<lparr>indicated_airspeed2 := 0x7FC00000\<rparr>" \<comment> \<open>a quiet NaN\<close>

definition gear_in_transit :: sim where
  "gear_in_transit = on_approach\<lparr>deploy_ratio := 0x3F7FFFFF\<rparr>"
  \<comment> \<open>the single just below 1.0, \<open>1 - 2 ^ -24\<close>\<close>

definition rolling_fast :: sim where
  "rolling_fast = at_idle\<lparr>indicated_airspeed2 := 0x42A00000, onground_all := 1,
                          y_agl := 0\<rparr>" \<comment> \<open>airspeed \<open>80.0f\<close>, on the ground\<close>

definition rolling_slow :: sim where
  "rolling_slow = rolling_fast\<lparr>indicated_airspeed2 := 0x425C0000\<rparr>" \<comment> \<open>airspeed \<open>55.0f\<close>\<close>

text \<open>Runs from the start of the plugin into each state.\<close>

definition to_START :: "(callback \<times> sim) list" where
  "to_START = [(EnableCommand 0, on_approach)]"

definition to_THROTTLE_DOWN :: "(callback \<times> sim) list" where
  "to_THROTTLE_DOWN = to_START @ [(FlightLoop, on_approach)]"

definition to_WAIT_FOR_IDLE_THROTTLE :: "(callback \<times> sim) list" where
  "to_WAIT_FOR_IDLE_THROTTLE = to_THROTTLE_DOWN @ [(FlightLoop, on_approach)]"

definition to_WAIT_FOR_TOUCHDOWN :: "(callback \<times> sim) list" where
  "to_WAIT_FOR_TOUCHDOWN = to_WAIT_FOR_IDLE_THROTTLE @ [(FlightLoop, at_idle)]"

definition to_APPLY_REVERSE :: "(callback \<times> sim) list" where
  "to_APPLY_REVERSE = to_WAIT_FOR_TOUCHDOWN @ [(FlightLoop, rolling_fast)]"

definition to_WAIT_FOR_END_OF_REVERSE :: "(callback \<times> sim) list" where
  "to_WAIT_FOR_END_OF_REVERSE = to_APPLY_REVERSE @ [(FlightLoop, rolling_fast)]"

definition stop :: "callback \<times> sim" where
  "stop = (MenuChoice MENU_ITEM_ID_STOP, on_approach)"

text \<open>
  Two activation cycles, each after an activation: a landing that goes through every
  state, and one that is already slower than 60 when all wheels are on the ground.
\<close>

definition full_landing :: "(callback \<times> sim) list" where
  "full_landing =
     [(FlightLoop, on_approach), (FlightLoop, on_approach), (FlightLoop, at_idle),
      (FlightLoop, rolling_fast), (FlightLoop, rolling_fast), (FlightLoop, rolling_slow)]"

definition slow_landing :: "(callback \<times> sim) list" where
  "slow_landing = [(FlightLoop, at_idle), (FlightLoop, rolling_slow), (FlightLoop, rolling_slow)]"

section \<open>Properties\<close>

subsection \<open>Unfolding and evaluation\<close>

lemmas host_defs = emit_def XPLMGetDataf_def XPLMGetDatai_def XPLMGetDatavf_def
  XPLMCommandBegin_def XPLMCommandEnd_def XPLMSpeakString_def Diagnostic_printf_def

lemmas float_eval = flt_lt_def flt_le_def flt_gt_def flt_ge_def flt_eq_def flt_ne_def
  is_nan_def float_val_def biased_exponent_def fraction_def sign_bit_def

lemmas config_defs = MIN_SPEED_REVERSE_THRUST_def MAX_AIRSPEED_def MIN_FLAP_ANGLE_def
  MAX_ALTITUDE_def GEAR_DOWN_RATIO_def float_zero_def MENU_ITEM_ID_ENABLE_def
  MENU_ITEM_ID_STOP_def TRUE_def

lemmas snapshot_defs = on_approach_def at_idle_def pushing_back_def too_fast_def
  airspeed_nan_def gear_in_transit_def rolling_fast_def rolling_slow_def

lemmas run_defs = to_START_def to_THROTTLE_DOWN_def to_WAIT_FOR_IDLE_THROTTLE_def
  to_WAIT_FOR_TOUCHDOWN_def to_APPLY_REVERSE_def to_WAIT_FOR_END_OF_REVERSE_def stop_def
  full_landing_def slow_landing_def

lemmas callback_defs = run_def EnableCmdHandler_def MenuHandlerCallback_def Enable_def
  StateMachine_def tick_def requestActivate_def requestDeactivate_def the_errors_def
  strcat_s_def initial_def

lemma run_Nil: "run w [] = w"
  by (simp add: run_def)

lemma run_Cons: "run w (c # cs) = run (deliver w c) cs"
  by (simp add: run_def)

lemma run_append: "run w (cs @ ds) = run (run w cs) ds"
  by (simp add: run_def)

lemma run_snoc: "run w (cs @ [c]) = deliver (run w cs) c"
  by (simp add: run_def)

lemma new_events_append: "trace w' = trace w @ evs \<Longrightarrow> new_events w w' = evs"
  by (simp add: new_events_def)

subsection \<open>The thresholds as numbers\<close>

lemma threshold_values:
  "float_val MAX_AIRSPEED = 160"
  "float_val MIN_FLAP_ANGLE = 18"
  "float_val GEAR_DOWN_RATIO = 1"
  "float_val MIN_SPEED_REVERSE_THRUST = 60"
  "float_val float_zero = 0"
  "float_val MAX_ALTITUDE = 9987686 / 65536"
  by (simp_all add: float_val_def biased_exponent_def fraction_def sign_bit_def config_defs)

lemma threshold_numbers:
  "\<not> is_nan MAX_AIRSPEED"
  "\<not> is_nan MIN_FLAP_ANGLE"
  "\<not> is_nan GEAR_DOWN_RATIO"
  "\<not> is_nan MIN_SPEED_REVERSE_THRUST"
  "\<not> is_nan float_zero"
  "\<not> is_nan MAX_ALTITUDE"
  by (simp_all add: is_nan_def biased_exponent_def fraction_def config_defs)

text \<open>
  \<open>152.4f\<close> is a little below 152.4, but no single lies between the two, so on singles
  the comparison with \<open>MAX_ALTITUDE\<close> is the comparison with 152.4. The singles with a
  biased exponent of 134 are the multiples of \<open>2 ^ -16\<close> from 128 up to 256.
\<close>

lemma fraction_less: "fraction x < 2 ^ 23"
proof -
  have "take_bit 23 (unat x) < 2 ^ 23"
    by (rule take_bit_nat_less_exp)
  then show ?thesis
    by (simp add: fraction_def unsigned_take_bit_eq)
qed

lemma float_val_negative: "sign_bit x \<Longrightarrow> float_val x \<le> 0"
  by (simp add: float_val_def divide_nonpos_pos)

lemma float_val_below_128:
  assumes "biased_exponent x \<le> 133"
  shows "float_val x < 128"
proof (cases "sign_bit x")
  case True
  then show ?thesis
    using float_val_negative [of x] by simp
next
  case False
  have f: "real (fraction x) < 2 ^ 23"
    using fraction_less [of x] by (metis of_nat_less_iff of_nat_numeral of_nat_power)
  show ?thesis
  proof (cases "biased_exponent x = 0")
    case True
    then show ?thesis
      using False f by (simp add: float_val_def)
  next
    case e: False
    have "(2::real) ^ biased_exponent x \<le> 2 ^ 133"
      using assms by (intro power_increasing) simp_all
    moreover have "real (2 ^ 23 + fraction x) < 2 ^ 24"
      using f by simp
    ultimately have
      "real (2 ^ 23 + fraction x) * 2 ^ biased_exponent x < 2 ^ 24 * 2 ^ 133"
      by (intro mult_less_le_imp_less) simp_all
    then show ?thesis
      using False e by (simp add: float_val_def)
  qed
qed

lemma float_val_from_256:
  assumes "135 \<le> biased_exponent x" and "\<not> sign_bit x"
  shows "256 \<le> float_val x"
proof -
  have "(2::real) ^ 135 \<le> 2 ^ biased_exponent x"
    using assms(1) by (intro power_increasing) simp_all
  moreover have "(2::real) ^ 23 \<le> real (2 ^ 23 + fraction x)"
    by simp
  ultimately have
    "(2::real) ^ 23 * 2 ^ 135 \<le> real (2 ^ 23 + fraction x) * 2 ^ biased_exponent x"
    by (intro mult_mono) simp_all
  then show ?thesis
    using assms by (simp add: float_val_def)
qed

lemma altitude_threshold:
  "float_val x \<le> 152.4 \<longleftrightarrow> float_val x \<le> float_val MAX_ALTITUDE"
proof
  assume "float_val x \<le> float_val MAX_ALTITUDE"
  then show "float_val x \<le> 152.4"
    by (simp add: threshold_values)
next
  assume a: "float_val x \<le> 152.4"
  consider "sign_bit x" | "\<not> sign_bit x" "biased_exponent x \<le> 133"
    | "\<not> sign_bit x" "biased_exponent x = 134" | "\<not> sign_bit x" "135 \<le> biased_exponent x"
    by linarith
  then show "float_val x \<le> float_val MAX_ALTITUDE"
  proof cases
    case 1
    then show ?thesis
      using float_val_negative [of x] by (simp add: threshold_values)
  next
    case 2
    then show ?thesis
      using float_val_below_128 [of x] by (simp add: threshold_values)
  next
    case 3
    let ?m = "2 ^ 23 + fraction x"
    have v: "float_val x = real ?m / 65536"
      using 3 by (simp add: float_val_def)
    with a have "real ?m * 10 \<le> 99876864"
      by (simp add: field_simps)
    then have "?m * 10 \<le> 99876864"
      by linarith
    then have "?m \<le> 9987686"
      by simp
    then have "real ?m \<le> 9987686"
      by linarith
    then show ?thesis
      by (simp add: v threshold_values)
  next
    case 4
    then show ?thesis
      using float_val_from_256 [of x] a by simp
  qed
qed

text \<open>The comparisons of the source are the comparisons of the spec.\<close>

lemma compare_MAX_AIRSPEED:
  "flt_le x MAX_AIRSPEED = at_most x 160"
  "flt_gt x MAX_AIRSPEED = greater_than x 160"
  by (simp_all add: flt_le_def flt_gt_def flt_lt_def at_most_def greater_than_def
        threshold_values threshold_numbers)

lemma compare_MIN_FLAP_ANGLE:
  "flt_ge x MIN_FLAP_ANGLE = at_least x 18"
  "flt_lt x MIN_FLAP_ANGLE = smaller_than x 18"
  by (auto simp add: flt_le_def flt_ge_def flt_lt_def at_least_def smaller_than_def
        threshold_values threshold_numbers)

lemma compare_GEAR_DOWN_RATIO:
  "flt_eq x GEAR_DOWN_RATIO = equal_to x 1"
  "flt_ne x GEAR_DOWN_RATIO = (\<not> equal_to x 1)"
  by (simp_all add: flt_eq_def flt_ne_def equal_to_def threshold_values threshold_numbers)

lemma compare_MAX_ALTITUDE:
  "flt_le x MAX_ALTITUDE = at_most x 152.4"
  "flt_gt x MAX_ALTITUDE = greater_than x 152.4"
  using altitude_threshold [of x]
  by (auto simp add: flt_le_def flt_gt_def flt_lt_def at_most_def greater_than_def
        threshold_numbers not_le [symmetric] simp del: not_le)

lemma compare_MIN_SPEED_REVERSE_THRUST:
  "flt_gt x MIN_SPEED_REVERSE_THRUST = greater_than x 60"
  "flt_le x MIN_SPEED_REVERSE_THRUST = at_most x 60"
  by (simp_all add: flt_le_def flt_gt_def flt_lt_def at_most_def greater_than_def
        threshold_values threshold_numbers)

lemma compare_float_zero:
  "flt_gt x float_zero = greater_than x 0"
  "flt_eq x float_zero = equal_to x 0"
  by (simp_all add: flt_eq_def flt_gt_def flt_lt_def equal_to_def greater_than_def
        threshold_values threshold_numbers)

lemmas compare_threshold = compare_MAX_AIRSPEED compare_MIN_FLAP_ANGLE
  compare_GEAR_DOWN_RATIO compare_MAX_ALTITUDE compare_MIN_SPEED_REVERSE_THRUST
  compare_float_zero

lemma greater_than_iff: "\<not> is_nan x \<Longrightarrow> greater_than x r \<longleftrightarrow> \<not> at_most x r"
  by (auto simp: greater_than_def at_most_def)

lemma smaller_than_iff: "\<not> is_nan x \<Longrightarrow> smaller_than x r \<longleftrightarrow> \<not> at_least x r"
  by (auto simp: smaller_than_def at_least_def)

lemmas value_eval = at_most_def at_least_def greater_than_def smaller_than_def equal_to_def
  is_nan_def float_val_def biased_exponent_def fraction_def sign_bit_def

text \<open>The example runs end in the states they are named after.\<close>

lemma in_START:
  "CurrentState (run initial to_START) = START"
  "DeactivationRequested (run initial to_START) = False"
  "ThrottleDownHeld (run initial to_START) = False"
  "ReverseThrustHeld (run initial to_START) = False"
  by (simp_all add: run_defs callback_defs host_defs snapshot_defs float_eval config_defs)

lemma in_THROTTLE_DOWN:
  "CurrentState (run initial to_THROTTLE_DOWN) = THROTTLE_DOWN"
  "DeactivationRequested (run initial to_THROTTLE_DOWN) = False"
  "ThrottleDownHeld (run initial to_THROTTLE_DOWN) = False"
  "ReverseThrustHeld (run initial to_THROTTLE_DOWN) = False"
  by (simp_all add: run_defs callback_defs host_defs snapshot_defs float_eval config_defs)

lemma in_WAIT_FOR_IDLE_THROTTLE:
  "CurrentState (run initial to_WAIT_FOR_IDLE_THROTTLE) = WAIT_FOR_IDLE_THROTTLE"
  "DeactivationRequested (run initial to_WAIT_FOR_IDLE_THROTTLE) = False"
  "ThrottleDownHeld (run initial to_WAIT_FOR_IDLE_THROTTLE) = True"
  "ReverseThrustHeld (run initial to_WAIT_FOR_IDLE_THROTTLE) = False"
  by (simp_all add: run_defs callback_defs host_defs snapshot_defs float_eval config_defs)

lemma in_WAIT_FOR_TOUCHDOWN:
  "CurrentState (run initial to_WAIT_FOR_TOUCHDOWN) = WAIT_FOR_TOUCHDOWN"
  "DeactivationRequested (run initial to_WAIT_FOR_TOUCHDOWN) = False"
  "ThrottleDownHeld (run initial to_WAIT_FOR_TOUCHDOWN) = False"
  "ReverseThrustHeld (run initial to_WAIT_FOR_TOUCHDOWN) = False"
  by (simp_all add: run_defs callback_defs host_defs snapshot_defs float_eval config_defs)

lemma in_APPLY_REVERSE:
  "CurrentState (run initial to_APPLY_REVERSE) = APPLY_REVERSE"
  "DeactivationRequested (run initial to_APPLY_REVERSE) = False"
  "ThrottleDownHeld (run initial to_APPLY_REVERSE) = False"
  "ReverseThrustHeld (run initial to_APPLY_REVERSE) = False"
  by (simp_all add: run_defs callback_defs host_defs snapshot_defs float_eval config_defs)

lemma in_WAIT_FOR_END_OF_REVERSE:
  "CurrentState (run initial to_WAIT_FOR_END_OF_REVERSE) = WAIT_FOR_END_OF_REVERSE"
  "DeactivationRequested (run initial to_WAIT_FOR_END_OF_REVERSE) = False"
  "ThrottleDownHeld (run initial to_WAIT_FOR_END_OF_REVERSE) = False"
  "ReverseThrustHeld (run initial to_WAIT_FOR_END_OF_REVERSE) = True"
  by (simp_all add: run_defs callback_defs host_defs snapshot_defs float_eval config_defs)

text \<open>An operator intent outside \<open>WAIT_FOR_USER\<close> leaves the state where it is.\<close>

lemma intent_keeps_state:
  "CurrentState w \<noteq> WAIT_FOR_USER \<Longrightarrow> is_intent c \<Longrightarrow>
   CurrentState (deliver w c) = CurrentState w"
  by (cases c; cases "fst c")
     (auto simp: is_intent_def EnableCmdHandler_def MenuHandlerCallback_def Enable_def
        host_defs)

lemma intents_keep_state:
  "CurrentState w \<noteq> WAIT_FOR_USER \<Longrightarrow> \<forall>c \<in> set ops. is_intent c \<Longrightarrow>
   CurrentState (run w ops) = CurrentState w"
proof (induction ops arbitrary: w)
  case Nil
  then show ?case by (simp add: run_Nil)
next
  case (Cons c ops)
  have "CurrentState (deliver w c) = CurrentState w"
    using Cons.prems by (simp add: intent_keeps_state)
  then show ?case
    using Cons by (simp add: run_Cons)
qed

subsection \<open>Deactivation while waiting\<close>

text \<open>
  C3. In \<open>WAIT_FOR_IDLE_THROTTLE\<close>, \<open>WAIT_FOR_TOUCHDOWN\<close> and
  \<open>WAIT_FOR_END_OF_REVERSE\<close> with \<open>DeactivationRequested\<close> set, the next tick goes to
  \<open>WAIT_FOR_USER\<close>, ends the throttle command in the first state and the reverse thrust
  command in the other two, and clears \<open>DeactivationRequested\<close>, all in that one step.
  The simulator's data does not occur in the result and no data reference is read.
  Besides the call that ends the command the step writes one diagnostic line.
\<close>

theorem deactivation_consumed:
  assumes "DeactivationRequested w"
  shows "(CurrentState w = WAIT_FOR_IDLE_THROTTLE \<longrightarrow>
            tick s w = w\<lparr>CurrentState := WAIT_FOR_USER, DeactivationRequested := False,
              ThrottleDownHeld := False,
              trace := trace w @ [CommandEnd ThrottleDownCmd,
                Diagnostic ''Deactivation while waiting for idle throttle\<newline>'' []]\<rparr>) \<and>
         (CurrentState w = WAIT_FOR_TOUCHDOWN \<longrightarrow>
            tick s w = w\<lparr>CurrentState := WAIT_FOR_USER, DeactivationRequested := False,
              ReverseThrustHeld := False,
              trace := trace w @ [CommandEnd ReverseThrustCmd,
                Diagnostic ''Deactivation while waiting for touch down\<newline>'' []]\<rparr>) \<and>
         (CurrentState w = WAIT_FOR_END_OF_REVERSE \<longrightarrow>
            tick s w = w\<lparr>CurrentState := WAIT_FOR_USER, DeactivationRequested := False,
              ReverseThrustHeld := False,
              trace := trace w @ [CommandEnd ReverseThrustCmd,
                Diagnostic ''Deactivation while waiting for end of reverse thrust\<newline>''
                  []]\<rparr>)"
  using assms by (simp add: tick_def StateMachine_def host_defs)

theorem deactivation_consumed_witness:
  "(let w = deliver (run initial to_WAIT_FOR_IDLE_THROTTLE) stop;
        w' = tick rolling_fast w
    in DeactivationRequested w \<and> CurrentState w = WAIT_FOR_IDLE_THROTTLE \<and>
       ThrottleDownHeld w \<and> CurrentState w' = WAIT_FOR_USER \<and>
       \<not> DeactivationRequested w' \<and> \<not> ThrottleDownHeld w' \<and>
       new_events w w' = [CommandEnd ThrottleDownCmd,
         Diagnostic ''Deactivation while waiting for idle throttle\<newline>'' []]) \<and>
   (let w = deliver (run initial to_WAIT_FOR_TOUCHDOWN) stop;
        w' = tick rolling_fast w
    in DeactivationRequested w \<and> CurrentState w = WAIT_FOR_TOUCHDOWN \<and>
       \<not> ReverseThrustHeld w \<and> CurrentState w' = WAIT_FOR_USER \<and>
       \<not> DeactivationRequested w' \<and> \<not> ReverseThrustHeld w' \<and>
       new_events w w' = [CommandEnd ReverseThrustCmd,
         Diagnostic ''Deactivation while waiting for touch down\<newline>'' []]) \<and>
   (let w = deliver (run initial to_WAIT_FOR_END_OF_REVERSE) stop;
        w' = tick rolling_fast w
    in DeactivationRequested w \<and> CurrentState w = WAIT_FOR_END_OF_REVERSE \<and>
       ReverseThrustHeld w \<and> CurrentState w' = WAIT_FOR_USER \<and>
       \<not> DeactivationRequested w' \<and> \<not> ReverseThrustHeld w' \<and>
       new_events w w' = [CommandEnd ReverseThrustCmd,
         Diagnostic ''Deactivation while waiting for end of reverse thrust\<newline>'' []])"
proof -
  let ?a = "deliver (run initial to_WAIT_FOR_IDLE_THROTTLE) stop"
  let ?b = "deliver (run initial to_WAIT_FOR_TOUCHDOWN) stop"
  let ?c = "deliver (run initial to_WAIT_FOR_END_OF_REVERSE) stop"
  have a: "DeactivationRequested ?a \<and> CurrentState ?a = WAIT_FOR_IDLE_THROTTLE \<and>
           ThrottleDownHeld ?a"
    by (simp add: stop_def MenuHandlerCallback_def config_defs host_defs
          in_WAIT_FOR_IDLE_THROTTLE)
  have b: "DeactivationRequested ?b \<and> CurrentState ?b = WAIT_FOR_TOUCHDOWN \<and>
           \<not> ReverseThrustHeld ?b"
    by (simp add: stop_def MenuHandlerCallback_def config_defs host_defs
          in_WAIT_FOR_TOUCHDOWN)
  have c: "DeactivationRequested ?c \<and> CurrentState ?c = WAIT_FOR_END_OF_REVERSE \<and>
           ReverseThrustHeld ?c"
    by (simp add: stop_def MenuHandlerCallback_def config_defs host_defs
          in_WAIT_FOR_END_OF_REVERSE)
  from a b c
    deactivation_consumed [of ?a rolling_fast]
    deactivation_consumed [of ?b rolling_fast]
    deactivation_consumed [of ?c rolling_fast]
  show ?thesis
    by (simp add: Let_def new_events_def)
qed

subsection \<open>Leaving \<open>START\<close>\<close>

lemma tick_THROTTLE_DOWN:
  "CurrentState w = THROTTLE_DOWN \<Longrightarrow>
   tick s w = w\<lparr>CurrentState := WAIT_FOR_IDLE_THROTTLE, ThrottleDownHeld := True,
     trace := trace w @ [Diagnostic ''Throttling down, waiting for idle throttle\<newline>'' [],
       CommandBegin ThrottleDownCmd]\<rparr>"
  by (simp add: tick_def StateMachine_def host_defs)

text \<open>
  C5. From \<open>START\<close>, a tick that reads a throttle ratio equal to 0 goes to
  \<open>WAIT_FOR_TOUCHDOWN\<close> in that tick, holds no command more than before and begins
  none. A tick that reads a ratio above 0 goes to \<open>THROTTLE_DOWN\<close>; whatever operator
  intents arrive then, the state is still \<open>THROTTLE_DOWN\<close> at the following tick, and
  that tick, whatever it reads, begins the throttle command and goes to
  \<open>WAIT_FOR_IDLE_THROTTLE\<close>.
\<close>

theorem leaving_START:
  assumes "CurrentState w = START"
  shows "(equal_to (throttle_ratio_all s) 0 \<longrightarrow>
            CurrentState (tick s w) = WAIT_FOR_TOUCHDOWN \<and>
            ThrottleDownHeld (tick s w) = ThrottleDownHeld w \<and>
            ReverseThrustHeld (tick s w) = ReverseThrustHeld w \<and>
            (\<forall>c. CommandBegin c \<notin> set (new_events w (tick s w)))) \<and>
         (greater_than (throttle_ratio_all s) 0 \<longrightarrow>
            CurrentState (tick s w) = THROTTLE_DOWN \<and>
            (\<forall>ops s'. (\<forall>c \<in> set ops. is_intent c) \<longrightarrow>
               CurrentState (run (tick s w) ops) = THROTTLE_DOWN \<and>
               CurrentState (tick s' (run (tick s w) ops)) = WAIT_FOR_IDLE_THROTTLE \<and>
               ThrottleDownHeld (tick s' (run (tick s w) ops)) \<and>
               CommandBegin ThrottleDownCmd
                 \<in> set (new_events (run (tick s w) ops) (tick s' (run (tick s w) ops)))))"
proof (intro conjI impI)
  assume z: "equal_to (throttle_ratio_all s) 0"
  then have "\<not> flt_gt (throttle_ratio_all s) float_zero"
    by (simp add: compare_float_zero greater_than_def equal_to_def)
  then have t: "tick s w = w\<lparr>CurrentState := WAIT_FOR_TOUCHDOWN,
      trace := trace w @ [GetData ThrottleRatioRef,
        Diagnostic
          ''Already at idle throttle, waiting for touch down of all three wheels\<newline>''
          []]\<rparr>"
    using assms by (simp add: tick_def StateMachine_def host_defs)
  show "CurrentState (tick s w) = WAIT_FOR_TOUCHDOWN"
    and "ThrottleDownHeld (tick s w) = ThrottleDownHeld w"
    and "ReverseThrustHeld (tick s w) = ReverseThrustHeld w"
    and "\<forall>c. CommandBegin c \<notin> set (new_events w (tick s w))"
    by (simp_all add: t new_events_def)
next
  assume p: "greater_than (throttle_ratio_all s) 0"
  then show td: "CurrentState (tick s w) = THROTTLE_DOWN"
    using assms by (simp add: tick_def StateMachine_def host_defs compare_float_zero)
  show "\<forall>ops s'. (\<forall>c \<in> set ops. is_intent c) \<longrightarrow>
          CurrentState (run (tick s w) ops) = THROTTLE_DOWN \<and>
          CurrentState (tick s' (run (tick s w) ops)) = WAIT_FOR_IDLE_THROTTLE \<and>
          ThrottleDownHeld (tick s' (run (tick s w) ops)) \<and>
          CommandBegin ThrottleDownCmd
            \<in> set (new_events (run (tick s w) ops) (tick s' (run (tick s w) ops)))"
  proof (intro allI impI)
    fix ops s'
    assume "\<forall>c \<in> set ops. is_intent c"
    then have st: "CurrentState (run (tick s w) ops) = THROTTLE_DOWN"
      using intents_keep_state [of "tick s w" ops] td by simp
    show "CurrentState (run (tick s w) ops) = THROTTLE_DOWN \<and>
          CurrentState (tick s' (run (tick s w) ops)) = WAIT_FOR_IDLE_THROTTLE \<and>
          ThrottleDownHeld (tick s' (run (tick s w) ops)) \<and>
          CommandBegin ThrottleDownCmd
            \<in> set (new_events (run (tick s w) ops) (tick s' (run (tick s w) ops)))"
      by (simp add: st tick_THROTTLE_DOWN [OF st] new_events_def)
  qed
qed

theorem leaving_START_witness:
  "(let w = run initial to_START; w' = tick at_idle w
    in CurrentState w = START \<and> equal_to (throttle_ratio_all at_idle) 0 \<and>
       CurrentState w' = WAIT_FOR_TOUCHDOWN \<and> \<not> ThrottleDownHeld w' \<and>
       \<not> ReverseThrustHeld w') \<and>
   (let w = run initial to_START; w1 = run (tick on_approach w) [stop];
        w2 = tick at_idle w1
    in greater_than (throttle_ratio_all on_approach) 0 \<and> is_intent stop \<and>
       CurrentState (tick on_approach w) = THROTTLE_DOWN \<and>
       CurrentState w1 = THROTTLE_DOWN \<and> CurrentState w2 = WAIT_FOR_IDLE_THROTTLE \<and>
       ThrottleDownHeld w2 \<and> CommandBegin ThrottleDownCmd \<in> set (new_events w1 w2))"
proof -
  let ?w = "run initial to_START"
  have z: "equal_to (throttle_ratio_all at_idle) 0"
    by (simp add: snapshot_defs value_eval)
  have p: "greater_than (throttle_ratio_all on_approach) 0"
    by (simp add: snapshot_defs value_eval)
  have i: "\<forall>c \<in> set [stop]. is_intent c"
    by (simp add: is_intent_def stop_def)
  from z p i leaving_START [of ?w at_idle] leaving_START [of ?w on_approach]
  show ?thesis
    by (simp add: Let_def in_START)
qed

text \<open>
  C10. From \<open>START\<close>, a tick that reads any throttle ratio at or below 0, negative ones
  too, goes to \<open>WAIT_FOR_TOUCHDOWN\<close>; it reads the throttle ratio, writes a diagnostic
  line and does nothing else, so the throttle command is not begun.
\<close>

theorem nonpositive_throttle_skips_reduction:
  assumes "CurrentState w = START"
    and "at_most (throttle_ratio_all s) 0"
  shows "tick s w = w\<lparr>CurrentState := WAIT_FOR_TOUCHDOWN,
           trace := trace w @ [GetData ThrottleRatioRef,
             Diagnostic
               ''Already at idle throttle, waiting for touch down of all three wheels\<newline>''
               []]\<rparr>"
proof -
  have "\<not> flt_gt (throttle_ratio_all s) float_zero"
    using assms(2) by (simp add: compare_float_zero greater_than_def at_most_def)
  then show ?thesis
    using assms(1) by (simp add: tick_def StateMachine_def host_defs)
qed

theorem nonpositive_throttle_skips_reduction_witness:
  "(let w = run initial to_START; w' = tick pushing_back w
    in CurrentState w = START \<and> at_most (throttle_ratio_all pushing_back) 0 \<and>
       float_val (throttle_ratio_all pushing_back) = - 1 \<and>
       CurrentState w' = WAIT_FOR_TOUCHDOWN \<and> \<not> ThrottleDownHeld w' \<and>
       begun ThrottleDownCmd w' = begun ThrottleDownCmd w)"
proof -
  have n: "at_most (throttle_ratio_all pushing_back) 0"
    by (simp add: snapshot_defs value_eval)
  have v: "float_val (throttle_ratio_all pushing_back) = - 1"
    by (simp add: snapshot_defs value_eval)
  from n v nonpositive_throttle_skips_reduction [of "run initial to_START" pushing_back]
  show ?thesis
    by (simp add: Let_def in_START begun_def)
qed

subsection \<open>Operator intents that change nothing\<close>

text \<open>
  C6. \<open>requestActivate()\<close> outside \<open>WAIT_FOR_USER\<close> speaks "Already enabled" and does
  nothing else: the state, \<open>DeactivationRequested\<close> and both commands are as before, no
  data reference is read, and the result does not depend on the simulator's data.
\<close>

theorem redundant_activation:
  assumes "CurrentState w \<noteq> WAIT_FOR_USER"
  shows "requestActivate s w = w\<lparr>trace := trace w @ [SpeakString ''Already enabled'']\<rparr>"
  using assms by (simp add: requestActivate_def Enable_def host_defs)

theorem redundant_activation_witness:
  "(let w = run initial to_WAIT_FOR_END_OF_REVERSE; w' = requestActivate on_approach w
    in CurrentState w \<noteq> WAIT_FOR_USER \<and> CurrentState w' = WAIT_FOR_END_OF_REVERSE \<and>
       \<not> DeactivationRequested w' \<and> \<not> ThrottleDownHeld w' \<and> ReverseThrustHeld w' \<and>
       new_events w w' = [SpeakString ''Already enabled''])"
  using redundant_activation [of "run initial to_WAIT_FOR_END_OF_REVERSE" on_approach]
  by (simp add: Let_def in_WAIT_FOR_END_OF_REVERSE new_events_def)

text \<open>
  C7. \<open>requestDeactivate()\<close> in \<open>WAIT_FOR_USER\<close> changes nothing at all: no global, no
  command, nothing read, spoken or logged. Outside \<open>WAIT_FOR_USER\<close> it sets
  \<open>DeactivationRequested\<close> and leaves the state and both commands as they are; it reads
  and speaks nothing, and the one call it makes is the diagnostic line for Log.txt.
\<close>

theorem requestDeactivate_effect:
  "(CurrentState w = WAIT_FOR_USER \<longrightarrow> requestDeactivate s w = w) \<and>
   (CurrentState w \<noteq> WAIT_FOR_USER \<longrightarrow>
      requestDeactivate s w =
        w\<lparr>DeactivationRequested := True,
          trace := trace w @ [Diagnostic ''User requested deactivation\<newline>'' []]\<rparr> \<and>
      filter (\<lambda>e. \<not> is_diagnostic e) (trace (requestDeactivate s w)) =
        filter (\<lambda>e. \<not> is_diagnostic e) (trace w))"
  by (simp add: requestDeactivate_def MenuHandlerCallback_def host_defs config_defs
        is_diagnostic_def)

theorem requestDeactivate_effect_witness:
  "(CurrentState initial = WAIT_FOR_USER \<and> requestDeactivate on_approach initial = initial) \<and>
   (let w = run initial to_WAIT_FOR_IDLE_THROTTLE; w' = requestDeactivate on_approach w
    in CurrentState w \<noteq> WAIT_FOR_USER \<and> DeactivationRequested w' \<and>
       CurrentState w' = WAIT_FOR_IDLE_THROTTLE \<and> ThrottleDownHeld w' \<and>
       \<not> ReverseThrustHeld w' \<and> spoken (new_events w w') = [])"
proof -
  have i: "CurrentState initial = WAIT_FOR_USER"
    by (simp add: initial_def)
  from i requestDeactivate_effect [of initial on_approach]
    requestDeactivate_effect [of "run initial to_WAIT_FOR_IDLE_THROTTLE" on_approach]
  show ?thesis
    by (simp add: Let_def in_WAIT_FOR_IDLE_THROTTLE new_events_def spoken_def)
qed

subsection \<open>Commands held and states\<close>

lemma hold_inv_initial: "hold_inv initial"
  by (simp add: hold_inv_def initial_def)

lemma hold_inv_Enable: "hold_inv w \<Longrightarrow> hold_inv (Enable s w)"
  by (simp add: hold_inv_def Enable_def host_defs Let_def)

lemma hold_inv_StateMachine: "hold_inv w \<Longrightarrow> hold_inv (snd (StateMachine s w))"
  by (cases "CurrentState w")
     (simp_all add: hold_inv_def StateMachine_def host_defs Let_def)

lemma hold_inv_deliver: "hold_inv w \<Longrightarrow> hold_inv (deliver w c)"
proof (cases c)
  case (Pair k s)
  assume h: "hold_inv w"
  show ?thesis
  proof (cases k)
    case FlightLoop
    then show ?thesis using h Pair by (simp add: hold_inv_StateMachine)
  next
    case (EnableCommand inPhase)
    then show ?thesis using h Pair by (simp add: EnableCmdHandler_def hold_inv_Enable)
  next
    case (MenuChoice inItemRef)
    have "hold_inv (Diagnostic_printf str lst (w\<lparr>DeactivationRequested := True\<rparr>))"
      for str lst
      using h by (simp add: hold_inv_def host_defs)
    then show ?thesis
      using h Pair MenuChoice by (simp add: MenuHandlerCallback_def hold_inv_Enable)
  qed
qed

lemma hold_inv_run: "hold_inv w \<Longrightarrow> hold_inv (run w cs)"
  by (induction cs arbitrary: w) (simp_all add: run_Nil run_Cons hold_inv_deliver)

lemma tick_ends_open_holds:
  assumes "hold_inv w" and "CurrentState (tick s w) = WAIT_FOR_USER"
  shows "(ThrottleDownHeld w \<longrightarrow>
            CommandEnd ThrottleDownCmd \<in> set (new_events w (tick s w))) \<and>
         (ReverseThrustHeld w \<longrightarrow>
            CommandEnd ReverseThrustCmd \<in> set (new_events w (tick s w)))"
  using assms
  by (cases "CurrentState w")
     (auto simp: hold_inv_def tick_def StateMachine_def host_defs Let_def new_events_def
        split: if_splits)

text \<open>
  C2. In every world reached from the initial one by any sequence of ticks and operator
  intents, with any data at each, the state is not \<open>WAIT_FOR_USER\<close> while the throttle
  command or the reverse thrust command is held; and a tick from such a world that ends
  in \<open>WAIT_FOR_USER\<close> has called \<open>XPLMCommandEnd\<close> for each command that was held
  before it.
\<close>

theorem never_idle_while_holding:
  "(CurrentState (run initial cs) = WAIT_FOR_USER \<longrightarrow>
      \<not> ThrottleDownHeld (run initial cs) \<and> \<not> ReverseThrustHeld (run initial cs)) \<and>
   (\<forall>s. CurrentState (tick s (run initial cs)) = WAIT_FOR_USER \<longrightarrow>
      (ThrottleDownHeld (run initial cs) \<longrightarrow>
         CommandEnd ThrottleDownCmd
           \<in> set (new_events (run initial cs) (tick s (run initial cs)))) \<and>
      (ReverseThrustHeld (run initial cs) \<longrightarrow>
         CommandEnd ReverseThrustCmd
           \<in> set (new_events (run initial cs) (tick s (run initial cs)))))"
proof -
  have h: "hold_inv (run initial cs)"
    by (rule hold_inv_run [OF hold_inv_initial])
  show ?thesis
  proof (intro conjI allI impI)
    assume "CurrentState (run initial cs) = WAIT_FOR_USER"
    with h show "\<not> ThrottleDownHeld (run initial cs)"
      and "\<not> ReverseThrustHeld (run initial cs)"
      by (simp_all add: hold_inv_def)
  next
    fix s
    assume t: "CurrentState (tick s (run initial cs)) = WAIT_FOR_USER"
    {
      assume "ThrottleDownHeld (run initial cs)"
      with tick_ends_open_holds [OF h t]
      show "CommandEnd ThrottleDownCmd
              \<in> set (new_events (run initial cs) (tick s (run initial cs)))"
        by simp
    }
    {
      assume "ReverseThrustHeld (run initial cs)"
      with tick_ends_open_holds [OF h t]
      show "CommandEnd ReverseThrustCmd
              \<in> set (new_events (run initial cs) (tick s (run initial cs)))"
        by simp
    }
  qed
qed

theorem never_idle_while_holding_witness:
  "(let w = run initial (to_WAIT_FOR_END_OF_REVERSE @ [(FlightLoop, rolling_slow)])
    in CurrentState w = WAIT_FOR_USER \<and> \<not> ThrottleDownHeld w \<and> \<not> ReverseThrustHeld w) \<and>
   (let w = run initial to_WAIT_FOR_END_OF_REVERSE; w' = tick rolling_slow w
    in CurrentState w' = WAIT_FOR_USER \<and> ReverseThrustHeld w \<and>
       CommandEnd ReverseThrustCmd \<in> set (new_events w w')) \<and>
   (let w = run initial (to_WAIT_FOR_IDLE_THROTTLE @ [stop]); w' = tick on_approach w
    in CurrentState w' = WAIT_FOR_USER \<and> ThrottleDownHeld w \<and>
       CommandEnd ThrottleDownCmd \<in> set (new_events w w'))"
proof -
  let ?r = "run initial to_WAIT_FOR_END_OF_REVERSE"
  let ?t = "run initial (to_WAIT_FOR_IDLE_THROTTLE @ [stop])"
  have slow: "flt_le (indicated_airspeed2 rolling_slow) MIN_SPEED_REVERSE_THRUST"
    by (simp add: snapshot_defs float_eval config_defs)
  have r: "CurrentState (tick rolling_slow ?r) = WAIT_FOR_USER"
    using slow
    by (simp add: tick_def StateMachine_def host_defs in_WAIT_FOR_END_OF_REVERSE)
  have r': "run initial (to_WAIT_FOR_END_OF_REVERSE @ [(FlightLoop, rolling_slow)])
              = tick rolling_slow ?r"
    by (simp add: run_snoc tick_def)
  have t: "CurrentState ?t = WAIT_FOR_IDLE_THROTTLE \<and> DeactivationRequested ?t \<and>
           ThrottleDownHeld ?t"
    by (simp add: run_snoc stop_def MenuHandlerCallback_def config_defs host_defs
          in_WAIT_FOR_IDLE_THROTTLE)
  then have t': "CurrentState (tick on_approach ?t) = WAIT_FOR_USER"
    by (simp add: tick_def StateMachine_def host_defs)
  from r r' t t'
    never_idle_while_holding [of "to_WAIT_FOR_END_OF_REVERSE @ [(FlightLoop, rolling_slow)]"]
    never_idle_while_holding [of to_WAIT_FOR_END_OF_REVERSE]
    never_idle_while_holding [of "to_WAIT_FOR_IDLE_THROTTLE @ [stop]"]
  show ?thesis
    by (simp add: Let_def in_WAIT_FOR_END_OF_REVERSE)
qed

subsection \<open>Eligibility\<close>

lemma Enable_eligible:
  assumes "CurrentState w = WAIT_FOR_USER" and "eligible s"
  shows "CurrentState (Enable s w) = START"
    and "DeactivationRequested (Enable s w) = False"
    and "ThrottleDownHeld (Enable s w) = ThrottleDownHeld w"
    and "ReverseThrustHeld (Enable s w) = ReverseThrustHeld w"
    and "spoken (new_events w (Enable s w)) = []"
  using assms
  by (simp_all add: Enable_def eligible_def compare_threshold host_defs Let_def
        new_events_def spoken_def)

lemma Enable_not_eligible:
  assumes "CurrentState w = WAIT_FOR_USER" and "\<not> eligible s"
  shows "Enable s w =
     w\<lparr>trace := trace w @
        [GetData IndicatedAirSpeedRef, GetData FlapsAngleRef, GetData GearDeployRatioRef,
         GetData AltitudeAboveGroundRef,
         Diagnostic ''Enable requested by user\<newline>'' [],
         Diagnostic ''Current IAS=%f (require %f or below)\<newline>''
           [ArgF (indicated_airspeed2 s), ArgF MAX_AIRSPEED],
         Diagnostic ''Current flap angle=%f (require %f or above)\<newline>''
           [ArgF (flap1_deg s), ArgF MIN_FLAP_ANGLE],
         Diagnostic ''Current gears are down=%s (require yes)\<newline>''
           [ArgS (if equal_to (deploy_ratio s) 1 then ''yes'' else ''no'')],
         Diagnostic ''Current altitude=%fm (require %fm or below)\<newline>''
           [ArgF (y_agl s), ArgF MAX_ALTITUDE]] @
        (let Errors = the_errors (indicated_airspeed2 s) (flap1_deg s) (deploy_ratio s)
                        (y_agl s)
         in if length Errors > 0 then [SpeakString Errors] else [])\<rparr>"
  using assms
  by (auto simp add: Enable_def eligible_def compare_threshold host_defs Let_def)

text \<open>
  The buffer of 256 bytes is never too small: \<open>Errors\<close> is the concatenation of the
  labels whose comparison holds, 64 characters at most.
\<close>

lemma the_errors_concat:
  "the_errors a f g h =
     (if greater_than a 160 then label AirspeedTooHigh else []) @
     (if smaller_than f 18 then label FlapsTooLow else []) @
     (if \<not> equal_to g 1 then label GearNotDown else []) @
     (if greater_than h 152.4 then label AltitudeTooHigh else [])"
  by (simp add: the_errors_def strcat_s_def compare_threshold Let_def)

lemma the_errors_length: "length (the_errors a f g h) \<le> 64"
  by (simp add: the_errors_concat)

lemma the_errors_failed:
  assumes "\<not> is_nan (indicated_airspeed2 s)" and "\<not> is_nan (flap1_deg s)"
    and "\<not> is_nan (y_agl s)"
  shows "the_errors (indicated_airspeed2 s) (flap1_deg s) (deploy_ratio s) (y_agl s)
           = advisory (failed_predicates s)"
  by (simp add: the_errors_concat greater_than_iff [OF assms(1)] smaller_than_iff [OF assms(2)]
        greater_than_iff [OF assms(3)] failed_predicates_def advisory_def)

lemma failed_predicates_Nil: "failed_predicates s = [] \<longleftrightarrow> eligible s"
  by (auto simp: failed_predicates_def eligible_def)

lemma advisory_Nil: "advisory vs = [] \<longleftrightarrow> vs = []"
proof (cases vs)
  case Nil
  then show ?thesis by (simp add: advisory_def)
next
  case (Cons v us)
  then show ?thesis by (cases v) (simp_all add: advisory_def)
qed

text \<open>
  C1, as amended. In \<open>WAIT_FOR_USER\<close>, \<open>requestActivate()\<close> goes to \<open>START\<close> if and only
  if all four predicates hold (airspeed at most 160, flap angle at least 18, gear ratio
  equal to 1.0, altitude at most 152.4), for every snapshot. When a predicate fails the state stays
  \<open>WAIT_FOR_USER\<close>, and the globals and the commands are untouched. When moreover none of
  airspeed, flap angle and altitude is a NaN, exactly one advisory is spoken, made of the
  labels of exactly the failed predicates, in the order airspeed, flaps, gear, altitude.
\<close>

theorem activation_iff_eligible:
  assumes "CurrentState w = WAIT_FOR_USER"
  shows "(CurrentState (requestActivate s w) = START \<longleftrightarrow> eligible s) \<and>
         (\<not> eligible s \<longrightarrow>
            CurrentState (requestActivate s w) = WAIT_FOR_USER \<and>
            DeactivationRequested (requestActivate s w) = DeactivationRequested w \<and>
            ThrottleDownHeld (requestActivate s w) = ThrottleDownHeld w \<and>
            ReverseThrustHeld (requestActivate s w) = ReverseThrustHeld w \<and>
            (\<not> is_nan (indicated_airspeed2 s) \<and> \<not> is_nan (flap1_deg s) \<and>
             \<not> is_nan (y_agl s) \<longrightarrow>
               spoken (new_events w (requestActivate s w))
                 = [advisory (failed_predicates s)]))"
proof (cases "eligible s")
  case True
  then show ?thesis
    using Enable_eligible(1) [OF assms True] by (simp add: requestActivate_def)
next
  case False
  note e = Enable_not_eligible [OF assms False]
  have st: "CurrentState (requestActivate s w) = WAIT_FOR_USER"
    "DeactivationRequested (requestActivate s w) = DeactivationRequested w"
    "ThrottleDownHeld (requestActivate s w) = ThrottleDownHeld w"
    "ReverseThrustHeld (requestActivate s w) = ReverseThrustHeld w"
    using assms by (simp_all add: requestActivate_def e)
  have sp: "spoken (new_events w (requestActivate s w)) = [advisory (failed_predicates s)]"
    if "\<not> is_nan (indicated_airspeed2 s)" "\<not> is_nan (flap1_deg s)" "\<not> is_nan (y_agl s)"
  proof -
    have "advisory (failed_predicates s) \<noteq> []"
      using False by (simp add: advisory_Nil failed_predicates_Nil)
    then show ?thesis
      by (simp add: requestActivate_def e new_events_def spoken_def Let_def
            the_errors_failed [OF that])
  qed
  show ?thesis
    using False st sp by simp
qed

theorem activation_iff_eligible_witness:
  "(CurrentState initial = WAIT_FOR_USER \<and> eligible on_approach \<and>
    CurrentState (requestActivate on_approach initial) = START) \<and>
   (\<not> eligible too_fast \<and> \<not> is_nan (indicated_airspeed2 too_fast) \<and>
    \<not> is_nan (flap1_deg too_fast) \<and> \<not> is_nan (y_agl too_fast) \<and>
    failed_predicates too_fast = [AirspeedTooHigh] \<and>
    CurrentState (requestActivate too_fast initial) = WAIT_FOR_USER \<and>
    spoken (new_events initial (requestActivate too_fast initial)) = ['' Airspeed too high''])"
proof -
  have i: "CurrentState initial = WAIT_FOR_USER"
    by (simp add: initial_def)
  have a: "eligible on_approach"
    by (simp add: eligible_def snapshot_defs value_eval)
  have f: "failed_predicates too_fast = [AirspeedTooHigh]"
    by (simp add: failed_predicates_def snapshot_defs value_eval)
  then have b: "\<not> eligible too_fast"
    using failed_predicates_Nil [of too_fast] by simp
  have n: "\<not> is_nan (indicated_airspeed2 too_fast)" "\<not> is_nan (flap1_deg too_fast)"
    "\<not> is_nan (y_agl too_fast)"
    by (simp_all add: snapshot_defs value_eval)
  from i a b f n activation_iff_eligible [of initial on_approach]
    activation_iff_eligible [of initial too_fast]
  show ?thesis
    by (simp add: advisory_def)
qed

text \<open>
  C1 as it is written fails for an airspeed that is a NaN: the predicate "airspeed at
  most 160" fails and it is the only one, the state stays \<open>WAIT_FOR_USER\<close>, but
  \<open>IndicatedAirSpeed > MAX_AIRSPEED\<close> is false as well, \<open>Errors\<close> stays empty and
  nothing is spoken.
\<close>

theorem activation_nan_counterexample:
  "CurrentState initial = WAIT_FOR_USER \<and>
   failed_predicates airspeed_nan = [AirspeedTooHigh] \<and>
   CurrentState (requestActivate airspeed_nan initial) = WAIT_FOR_USER \<and>
   spoken (new_events initial (requestActivate airspeed_nan initial)) = [] \<and>
   spoken (new_events initial (requestActivate airspeed_nan initial))
     \<noteq> [advisory (failed_predicates airspeed_nan)]"
proof -
  have i: "CurrentState initial = WAIT_FOR_USER"
    by (simp add: initial_def)
  have f: "failed_predicates airspeed_nan = [AirspeedTooHigh]"
    by (simp add: failed_predicates_def snapshot_defs value_eval)
  then have b: "\<not> eligible airspeed_nan"
    using failed_predicates_Nil [of airspeed_nan] by simp
  have e: "the_errors (indicated_airspeed2 airspeed_nan) (flap1_deg airspeed_nan)
             (deploy_ratio airspeed_nan) (y_agl airspeed_nan) = []"
    by (simp add: the_errors_concat snapshot_defs value_eval)
  show ?thesis
    using i f by (simp add: requestActivate_def Enable_not_eligible [OF i b] e
          new_events_def spoken_def)
qed

subsection \<open>The gear check\<close>

text \<open>
  Only one single has the value 1: sign 0, biased exponent 127, fraction 0, which is
  \<open>GEAR_DOWN_RATIO\<close> itself.
\<close>

lemma float_val_below_1:
  assumes "biased_exponent x \<le> 126"
  shows "float_val x < 1"
proof (cases "sign_bit x")
  case True
  then show ?thesis
    using float_val_negative [of x] by simp
next
  case False
  have f: "real (fraction x) < 2 ^ 23"
    using fraction_less [of x] by (metis of_nat_less_iff of_nat_numeral of_nat_power)
  show ?thesis
  proof (cases "biased_exponent x = 0")
    case True
    then show ?thesis
      using False f by (simp add: float_val_def)
  next
    case e: False
    have "(2::real) ^ biased_exponent x \<le> 2 ^ 126"
      using assms by (intro power_increasing) simp_all
    moreover have "real (2 ^ 23 + fraction x) < 2 ^ 24"
      using f by simp
    ultimately have
      "real (2 ^ 23 + fraction x) * 2 ^ biased_exponent x < 2 ^ 24 * 2 ^ 126"
      by (intro mult_less_le_imp_less) simp_all
    then show ?thesis
      using False e by (simp add: float_val_def)
  qed
qed

lemma float_val_from_2:
  assumes "128 \<le> biased_exponent x" and "\<not> sign_bit x"
  shows "2 \<le> float_val x"
proof -
  have "(2::real) ^ 128 \<le> 2 ^ biased_exponent x"
    using assms(1) by (intro power_increasing) simp_all
  moreover have "(2::real) ^ 23 \<le> real (2 ^ 23 + fraction x)"
    by simp
  ultimately have
    "(2::real) ^ 23 * 2 ^ 128 \<le> real (2 ^ 23 + fraction x) * 2 ^ biased_exponent x"
    by (intro mult_mono) simp_all
  then show ?thesis
    using assms by (simp add: float_val_def)
qed

lemma float_val_1_fields:
  assumes "float_val x = 1"
  shows "\<not> sign_bit x \<and> biased_exponent x = 127 \<and> fraction x = 0"
proof -
  have s: "\<not> sign_bit x"
    using assms float_val_negative [of x] by auto
  have "\<not> biased_exponent x \<le> 126"
    using assms float_val_below_1 [of x] by auto
  moreover have "\<not> 128 \<le> biased_exponent x"
    using assms s float_val_from_2 [of x] by auto
  ultimately have e: "biased_exponent x = 127"
    by linarith
  have "float_val x = real (2 ^ 23 + fraction x) / 2 ^ 23"
    using s e by (simp add: float_val_def)
  with assms have "real (fraction x) = 0"
    by (simp add: field_simps)
  then show ?thesis
    using s e by simp
qed

lemma fields_determine_one:
  assumes "\<not> sign_bit x" and "biased_exponent x = 127" and "fraction x = 0"
  shows "x = GEAR_DOWN_RATIO"
proof -
  let ?n = "unat x"
  have b: "?n < 2 ^ 32"
    using unsigned_less [of x] by simp
  have "\<not> bit ?n 31"
    using assms(1) by (simp add: sign_bit_def bit_unsigned_iff)
  then have "even (?n div 2 ^ 31)"
    by (simp add: bit_iff_odd)
  moreover have "?n div 2 ^ 31 < 2"
    using b by (simp add: less_mult_imp_div_less)
  ultimately have "?n div 2 ^ 31 = 0"
    by (metis One_nat_def Suc_1 less_Suc_eq less_one odd_one)
  then have s: "?n < 2 ^ 31"
    by (simp add: div_eq_0_iff)
  have "(?n div 2 ^ 23) mod 2 ^ 8 = 127"
    using assms(2)
    by (simp add: biased_exponent_def take_bit_eq_mod drop_bit_eq_div unat_div unat_mod)
  moreover have "?n div 2 ^ 23 < 2 ^ 8"
    using s by (simp add: less_mult_imp_div_less)
  ultimately have e: "?n div 2 ^ 23 = 127"
    by simp
  have f: "?n mod 2 ^ 23 = 0"
    using assms(3) by (simp add: fraction_def take_bit_eq_mod unat_mod)
  have "?n = (?n div 2 ^ 23) * 2 ^ 23 + ?n mod 2 ^ 23"
    by simp
  then have "?n = 1065353216"
    by (simp only: e f) simp
  then have "word_of_nat ?n = (word_of_nat 1065353216 :: 32 word)"
    by simp
  then show ?thesis
    by (simp add: GEAR_DOWN_RATIO_def)
qed

lemma equal_to_1_iff: "equal_to x 1 \<longleftrightarrow> x = GEAR_DOWN_RATIO"
proof
  assume "equal_to x 1"
  then have "float_val x = 1"
    by (simp add: equal_to_def)
  then show "x = GEAR_DOWN_RATIO"
    using float_val_1_fields [of x] fields_determine_one [of x] by simp
next
  assume "x = GEAR_DOWN_RATIO"
  then show "equal_to x 1"
    by (simp add: equal_to_def threshold_values threshold_numbers)
qed

text \<open>
  C8. The gear check of \<open>requestActivate()\<close> is equality with 1.0 and nothing else. A
  gear ratio is a number of value 1 only if it is the single \<open>1.0f\<close> itself, so a
  ratio whose value is not 1, however close to 1, is another single. In
  \<open>WAIT_FOR_USER\<close>, for every snapshot: with any other single as gear ratio the state
  stays \<open>WAIT_FOR_USER\<close> and the one advisory spoken has the label of the gear
  violation, between the labels of the violations of airspeed and flaps and that of
  altitude; with \<open>1.0f\<close> as gear ratio the state goes to \<open>START\<close> if and only if
  the other three predicates hold, and what is spoken has no gear label.
\<close>

theorem gear_exact_match:
  assumes "CurrentState w = WAIT_FOR_USER"
  shows "let A = (if greater_than (indicated_airspeed2 s) 160
                  then '' Airspeed too high'' else []);
             F = (if smaller_than (flap1_deg s) 18 then '' Flaps too low'' else []);
             H = (if greater_than (y_agl s) 152.4 then '' Altitude too high'' else [])
         in (deploy_ratio s = GEAR_DOWN_RATIO
               \<longleftrightarrow> \<not> is_nan (deploy_ratio s) \<and> float_val (deploy_ratio s) = 1) \<and>
            (float_val (deploy_ratio s) \<noteq> 1 \<longrightarrow> deploy_ratio s \<noteq> GEAR_DOWN_RATIO) \<and>
            (deploy_ratio s \<noteq> GEAR_DOWN_RATIO \<longrightarrow>
               \<not> predicate_holds s GearNotDown \<and>
               GearNotDown \<in> set (failed_predicates s) \<and>
               CurrentState (requestActivate s w) = WAIT_FOR_USER \<and>
               spoken (new_events w (requestActivate s w))
                 = [A @ F @ '' Gear not down'' @ H]) \<and>
            (deploy_ratio s = GEAR_DOWN_RATIO \<longrightarrow>
               (CurrentState (requestActivate s w) = START
                  \<longleftrightarrow> at_most (indicated_airspeed2 s) 160 \<and> at_least (flap1_deg s) 18 \<and>
                      at_most (y_agl s) 152.4) \<and>
               spoken (new_events w (requestActivate s w))
                 = (if A @ F @ H = [] then [] else [A @ F @ H]))"
proof -
  let ?A = "if greater_than (indicated_airspeed2 s) 160 then '' Airspeed too high'' else []"
  let ?F = "if smaller_than (flap1_deg s) 18 then '' Flaps too low'' else []"
  let ?H = "if greater_than (y_agl s) 152.4 then '' Altitude too high'' else []"
  let ?E = "the_errors (indicated_airspeed2 s) (flap1_deg s) (deploy_ratio s) (y_agl s)"
  have exact: "deploy_ratio s = GEAR_DOWN_RATIO
                 \<longleftrightarrow> \<not> is_nan (deploy_ratio s) \<and> float_val (deploy_ratio s) = 1"
    using equal_to_1_iff [of "deploy_ratio s"] by (simp add: equal_to_def)
  have other: "CurrentState (requestActivate s w) = WAIT_FOR_USER \<and>
               spoken (new_events w (requestActivate s w))
                 = [?A @ ?F @ '' Gear not down'' @ ?H] \<and>
               \<not> predicate_holds s GearNotDown \<and> GearNotDown \<in> set (failed_predicates s)"
    if "deploy_ratio s \<noteq> GEAR_DOWN_RATIO"
  proof -
    have g: "\<not> equal_to (deploy_ratio s) 1"
      using that by (simp add: equal_to_1_iff)
    then have e: "\<not> eligible s"
      by (simp add: eligible_def)
    have E: "?E = ?A @ ?F @ '' Gear not down'' @ ?H"
      using g by (simp add: the_errors_concat)
    then have "?E \<noteq> []"
      by simp
    then have "spoken (new_events w (requestActivate s w)) = [?E]"
      by (simp add: requestActivate_def Enable_not_eligible [OF assms e] new_events_def
            spoken_def Let_def)
    moreover have "CurrentState (requestActivate s w) = WAIT_FOR_USER"
      using assms by (simp add: requestActivate_def Enable_not_eligible [OF assms e])
    ultimately show ?thesis
      using g E by (simp add: failed_predicates_def)
  qed
  have one: "(CurrentState (requestActivate s w) = START
                \<longleftrightarrow> at_most (indicated_airspeed2 s) 160 \<and> at_least (flap1_deg s) 18 \<and>
                    at_most (y_agl s) 152.4) \<and>
             spoken (new_events w (requestActivate s w))
               = (if ?A @ ?F @ ?H = [] then [] else [?A @ ?F @ ?H])"
    if "deploy_ratio s = GEAR_DOWN_RATIO"
  proof -
    have g: "equal_to (deploy_ratio s) 1"
      using that by (simp add: equal_to_1_iff)
    then have el: "eligible s \<longleftrightarrow> at_most (indicated_airspeed2 s) 160 \<and>
                     at_least (flap1_deg s) 18 \<and> at_most (y_agl s) 152.4"
      by (simp add: eligible_def)
    show ?thesis
    proof (cases "eligible s")
      case True
      then have "?A @ ?F @ ?H = []"
        using el by (auto simp: greater_than_def smaller_than_def at_most_def at_least_def)
      then show ?thesis
        using True el Enable_eligible(1,5) [OF assms True]
        by (simp add: requestActivate_def)
    next
      case False
      have E: "?E = ?A @ ?F @ ?H"
        using g by (simp add: the_errors_concat)
      have "CurrentState (requestActivate s w) \<noteq> START"
        using assms by (simp add: requestActivate_def Enable_not_eligible [OF assms False])
      moreover have "spoken (new_events w (requestActivate s w))
                       = (if ?E = [] then [] else [?E])"
        by (simp add: requestActivate_def Enable_not_eligible [OF assms False]
              new_events_def spoken_def Let_def)
      ultimately show ?thesis
        using False el by (simp add: E)
    qed
  qed
  have val: "deploy_ratio s \<noteq> GEAR_DOWN_RATIO" if "float_val (deploy_ratio s) \<noteq> 1"
    using that exact by simp
  show ?thesis
    unfolding Let_def using exact val other one by blast
qed

theorem gear_exact_match_witness:
  "(CurrentState initial = WAIT_FOR_USER \<and>
    float_val (deploy_ratio gear_in_transit) = 1 - 1 / 2 ^ 24 \<and>
    float_val (deploy_ratio gear_in_transit) \<noteq> 1 \<and>
    \<not> is_nan (deploy_ratio gear_in_transit) \<and>
    deploy_ratio gear_in_transit \<noteq> GEAR_DOWN_RATIO \<and>
    CurrentState (requestActivate gear_in_transit initial) = WAIT_FOR_USER \<and>
    spoken (new_events initial (requestActivate gear_in_transit initial))
      = ['' Gear not down'']) \<and>
   (deploy_ratio on_approach = GEAR_DOWN_RATIO \<and>
    float_val (deploy_ratio on_approach) = 1 \<and>
    at_most (indicated_airspeed2 on_approach) 160 \<and> at_least (flap1_deg on_approach) 18 \<and>
    at_most (y_agl on_approach) 152.4 \<and>
    CurrentState (requestActivate on_approach initial) = START \<and>
    spoken (new_events initial (requestActivate on_approach initial)) = []) \<and>
   (deploy_ratio too_fast = GEAR_DOWN_RATIO \<and>
    \<not> at_most (indicated_airspeed2 too_fast) 160 \<and>
    CurrentState (requestActivate too_fast initial) \<noteq> START \<and>
    spoken (new_events initial (requestActivate too_fast initial))
      = ['' Airspeed too high''])"
proof -
  have i: "CurrentState initial = WAIT_FOR_USER"
    by (simp add: initial_def)
  have v: "float_val (deploy_ratio gear_in_transit) = 1 - 1 / 2 ^ 24"
    "\<not> is_nan (deploy_ratio gear_in_transit)"
    by (simp_all add: snapshot_defs value_eval)
  then have n: "float_val (deploy_ratio gear_in_transit) \<noteq> 1"
    by simp
  have t: "\<not> greater_than (indicated_airspeed2 gear_in_transit) 160"
    "\<not> smaller_than (flap1_deg gear_in_transit) 18"
    "\<not> greater_than (y_agl gear_in_transit) 152.4"
    by (simp_all add: snapshot_defs value_eval)
  have a: "deploy_ratio on_approach = GEAR_DOWN_RATIO"
    "float_val (deploy_ratio on_approach) = 1"
    "at_most (indicated_airspeed2 on_approach) 160"
    "at_least (flap1_deg on_approach) 18"
    "at_most (y_agl on_approach) 152.4"
    "\<not> greater_than (indicated_airspeed2 on_approach) 160"
    "\<not> smaller_than (flap1_deg on_approach) 18"
    "\<not> greater_than (y_agl on_approach) 152.4"
    by (simp_all add: snapshot_defs value_eval config_defs)
  have f: "deploy_ratio too_fast = GEAR_DOWN_RATIO"
    "\<not> at_most (indicated_airspeed2 too_fast) 160"
    "greater_than (indicated_airspeed2 too_fast) 160"
    "\<not> smaller_than (flap1_deg too_fast) 18"
    "\<not> greater_than (y_agl too_fast) 152.4"
    by (simp_all add: snapshot_defs value_eval config_defs)
  from i v n t a f gear_exact_match [OF i, of gear_in_transit]
    gear_exact_match [OF i, of on_approach] gear_exact_match [OF i, of too_fast]
  show ?thesis
    by (simp add: Let_def)
qed

subsection \<open>A request to deactivate that is never consumed\<close>

lemma stale_step:
  assumes "CurrentState w = WAIT_FOR_USER" and "DeactivationRequested w"
    and "\<not> (is_activation c \<and> eligible (snd c))"
  shows "CurrentState (deliver w c) = WAIT_FOR_USER \<and> DeactivationRequested (deliver w c)"
proof (cases c)
  case (Pair k s)
  show ?thesis
  proof (cases "is_activation c")
    case True
    then have e: "\<not> eligible s"
      using assms(3) Pair by simp
    have "deliver w c = Enable s w"
      using True Pair
      by (auto simp: is_activation_def EnableCmdHandler_def MenuHandlerCallback_def)
    then show ?thesis
      using assms(1,2) by (simp add: Enable_not_eligible [OF assms(1) e])
  next
    case False
    then have "deliver w c = w"
      using Pair assms(1)
      by (cases k)
         (auto simp: is_activation_def EnableCmdHandler_def MenuHandlerCallback_def
            StateMachine_def)
    then show ?thesis
      using assms(1,2) by simp
  qed
qed

lemma stale_run:
  assumes "CurrentState w = WAIT_FOR_USER" and "DeactivationRequested w"
    and "\<forall>c \<in> set cs. \<not> (is_activation c \<and> eligible (snd c))"
  shows "CurrentState (run w cs) = WAIT_FOR_USER \<and> DeactivationRequested (run w cs)"
  using assms
proof (induction cs arbitrary: w)
  case Nil
  then show ?case by (simp add: run_Nil)
next
  case (Cons c cs)
  have "CurrentState (deliver w c) = WAIT_FOR_USER \<and> DeactivationRequested (deliver w c)"
    using Cons.prems by (intro stale_step) simp_all
  then show ?case
    using Cons by (simp add: run_Cons)
qed

text \<open>
  C9. A tick in \<open>APPLY_REVERSE\<close> does not look at \<open>DeactivationRequested\<close>: it does the
  same whatever the flag is, and leaves the flag as it was. With the flag set and the
  airspeed at most 60 the tick goes to \<open>WAIT_FOR_USER\<close> with the flag still set. From
  there, as long as no activation with an eligible snapshot arrives, every tick and every
  operator intent leaves the state \<open>WAIT_FOR_USER\<close> and the flag set; the first eligible
  activation clears it and goes to \<open>START\<close>.
\<close>

theorem stale_deactivation_request:
  assumes "CurrentState w = APPLY_REVERSE"
    and "DeactivationRequested w"
    and "at_most (indicated_airspeed2 s) 60"
  shows "(\<forall>s' b. tick s' (w\<lparr>DeactivationRequested := b\<rparr>)
                   = (tick s' w)\<lparr>DeactivationRequested := b\<rparr>) \<and>
         CurrentState (tick s w) = WAIT_FOR_USER \<and>
         DeactivationRequested (tick s w) \<and>
         (\<forall>cs. (\<forall>c \<in> set cs. \<not> (is_activation c \<and> eligible (snd c))) \<longrightarrow>
            CurrentState (run (tick s w) cs) = WAIT_FOR_USER \<and>
            DeactivationRequested (run (tick s w) cs) \<and>
            (\<forall>s'. eligible s' \<longrightarrow>
               CurrentState (requestActivate s' (run (tick s w) cs)) = START \<and>
               \<not> DeactivationRequested (requestActivate s' (run (tick s w) cs))))"
proof (intro conjI allI impI)
  fix s' b
  show "tick s' (w\<lparr>DeactivationRequested := b\<rparr>) = (tick s' w)\<lparr>DeactivationRequested := b\<rparr>"
    using assms(1) by (simp add: tick_def StateMachine_def host_defs Let_def)
next
  have "\<not> greater_than (indicated_airspeed2 s) 60"
    using assms(3) by (simp add: greater_than_def at_most_def)
  then have t: "CurrentState (tick s w) = WAIT_FOR_USER \<and> DeactivationRequested (tick s w)"
    using assms(1,2)
    by (simp add: tick_def StateMachine_def host_defs compare_MIN_SPEED_REVERSE_THRUST)
  then show "CurrentState (tick s w) = WAIT_FOR_USER"
    and "DeactivationRequested (tick s w)"
    by simp_all
  fix cs
  assume "\<forall>c \<in> set cs. \<not> (is_activation c \<and> eligible (snd c))"
  with t have r: "CurrentState (run (tick s w) cs) = WAIT_FOR_USER
                  \<and> DeactivationRequested (run (tick s w) cs)"
    by (intro stale_run) simp_all
  then show "CurrentState (run (tick s w) cs) = WAIT_FOR_USER"
    and "DeactivationRequested (run (tick s w) cs)"
    by simp_all
  fix s'
  assume "eligible s'"
  with r show "CurrentState (requestActivate s' (run (tick s w) cs)) = START"
    and "\<not> DeactivationRequested (requestActivate s' (run (tick s w) cs))"
    by (simp_all add: requestActivate_def Enable_eligible)
qed

theorem stale_deactivation_request_witness:
  "(let w = run initial (to_APPLY_REVERSE @ [stop]);
        w' = tick rolling_slow w;
        cs = [(FlightLoop, on_approach), stop, (EnableCommand 0, too_fast)]
    in CurrentState w = APPLY_REVERSE \<and> DeactivationRequested w \<and>
       at_most (indicated_airspeed2 rolling_slow) 60 \<and>
       \<not> is_activation (FlightLoop, on_approach) \<and> \<not> is_activation stop \<and>
       \<not> eligible too_fast \<and> eligible on_approach \<and>
       CurrentState w' = WAIT_FOR_USER \<and> DeactivationRequested w' \<and>
       CurrentState (run w' cs) = WAIT_FOR_USER \<and> DeactivationRequested (run w' cs) \<and>
       CurrentState (requestActivate on_approach (run w' cs)) = START \<and>
       \<not> DeactivationRequested (requestActivate on_approach (run w' cs)))"
proof -
  let ?w = "run initial (to_APPLY_REVERSE @ [stop])"
  let ?cs = "[(FlightLoop, on_approach), stop, (EnableCommand 0, too_fast)]"
  have w: "CurrentState ?w = APPLY_REVERSE \<and> DeactivationRequested ?w"
    by (simp add: run_snoc stop_def MenuHandlerCallback_def config_defs host_defs
          in_APPLY_REVERSE)
  have a: "at_most (indicated_airspeed2 rolling_slow) 60"
    by (simp add: snapshot_defs value_eval)
  have e: "eligible on_approach"
    by (simp add: eligible_def snapshot_defs value_eval)
  have f: "\<not> eligible too_fast"
    by (simp add: eligible_def snapshot_defs value_eval)
  have c: "\<forall>c \<in> set ?cs. \<not> (is_activation c \<and> eligible (snd c))"
    using f by (simp add: is_activation_def stop_def config_defs)
  have n: "\<not> is_activation (FlightLoop, on_approach) \<and> \<not> is_activation stop"
    by (simp add: is_activation_def stop_def config_defs)
  from w a e f n c stale_deactivation_request [of ?w rolling_slow]
  show ?thesis
    by (simp add: Let_def)
qed

subsection \<open>Reverse thrust in an activation cycle\<close>

lemma count_list_snoc: "count_list (xs @ [x]) y = count_list xs y + (if x = y then 1 else 0)"
  by (induction xs) simp_all

lemma Enable_step:
  "begun k (Enable s w) = begun k w"
  "ended k (Enable s w) = ended k w"
  "CurrentState (Enable s w) = CurrentState w \<or>
   CurrentState w = WAIT_FOR_USER \<and> CurrentState (Enable s w) = START"
  by (simp_all add: Enable_def host_defs Let_def begun_def ended_def count_list_snoc)

lemma MenuHandlerCallback_step:
  "begun k (MenuHandlerCallback i s w) = begun k w"
  "ended k (MenuHandlerCallback i s w) = ended k w"
  "CurrentState (MenuHandlerCallback i s w) = CurrentState w \<or>
   CurrentState w = WAIT_FOR_USER \<and> CurrentState (MenuHandlerCallback i s w) = START"
  using Enable_step(3) [of s w]
  by (auto simp add: MenuHandlerCallback_def Enable_step(1,2))
     (simp_all add: host_defs begun_def ended_def count_list_snoc)

lemma StateMachine_begun:
  "begun ReverseThrustCmd (snd (StateMachine s w)) = begun ReverseThrustCmd w +
     (if CurrentState w = APPLY_REVERSE
         \<and> CurrentState (snd (StateMachine s w)) = WAIT_FOR_END_OF_REVERSE
      then 1 else 0)"
  by (cases "CurrentState w")
     (simp_all add: StateMachine_def host_defs Let_def begun_def count_list_snoc)

lemma StateMachine_ended:
  "ended ReverseThrustCmd (snd (StateMachine s w)) = ended ReverseThrustCmd w +
     (if (CurrentState w = WAIT_FOR_TOUCHDOWN \<or> CurrentState w = WAIT_FOR_END_OF_REVERSE)
         \<and> CurrentState (snd (StateMachine s w)) = WAIT_FOR_USER
      then 1 else 0)"
  by (cases "CurrentState w")
     (simp_all add: StateMachine_def host_defs Let_def ended_def count_list_snoc)

lemma StateMachine_enters_reverse:
  "CurrentState (snd (StateMachine s w)) = WAIT_FOR_END_OF_REVERSE \<Longrightarrow>
   CurrentState w = APPLY_REVERSE \<or> CurrentState w = WAIT_FOR_END_OF_REVERSE"
  by (cases "CurrentState w")
     (simp_all add: StateMachine_def host_defs Let_def split: if_splits)

lemma StateMachine_leaves_reverse:
  "CurrentState w = WAIT_FOR_END_OF_REVERSE \<Longrightarrow>
   CurrentState (snd (StateMachine s w)) = WAIT_FOR_END_OF_REVERSE \<or>
   CurrentState (snd (StateMachine s w)) = WAIT_FOR_USER"
  by (simp add: StateMachine_def host_defs Let_def)

lemma deliver_begun:
  "begun ReverseThrustCmd (deliver w c) = begun ReverseThrustCmd w +
     (if CurrentState w = APPLY_REVERSE
         \<and> CurrentState (deliver w c) = WAIT_FOR_END_OF_REVERSE
      then 1 else 0)"
proof (cases c)
  case (Pair k s)
  show ?thesis
  proof (cases k)
    case FlightLoop
    then show ?thesis using Pair by (simp add: StateMachine_begun)
  next
    case (EnableCommand inPhase)
    then show ?thesis
      using Pair Enable_step(3) [of s w] by (auto simp: EnableCmdHandler_def Enable_step(1))
  next
    case (MenuChoice inItemRef)
    then show ?thesis
      using Pair MenuHandlerCallback_step(3) [of inItemRef s w]
      by (auto simp: MenuHandlerCallback_step(1))
  qed
qed

lemma deliver_ended:
  "ended ReverseThrustCmd (deliver w c) = ended ReverseThrustCmd w +
     (if (CurrentState w = WAIT_FOR_TOUCHDOWN \<or> CurrentState w = WAIT_FOR_END_OF_REVERSE)
         \<and> CurrentState (deliver w c) = WAIT_FOR_USER
      then 1 else 0)"
proof (cases c)
  case (Pair k s)
  show ?thesis
  proof (cases k)
    case FlightLoop
    then show ?thesis using Pair by (simp add: StateMachine_ended)
  next
    case (EnableCommand inPhase)
    then show ?thesis
      using Pair Enable_step(3) [of s w] by (auto simp: EnableCmdHandler_def Enable_step(2))
  next
    case (MenuChoice inItemRef)
    then show ?thesis
      using Pair MenuHandlerCallback_step(3) [of inItemRef s w]
      by (auto simp: MenuHandlerCallback_step(2))
  qed
qed

lemma deliver_enters_reverse:
  assumes "CurrentState (deliver w c) = WAIT_FOR_END_OF_REVERSE"
  shows "CurrentState w = APPLY_REVERSE \<or> CurrentState w = WAIT_FOR_END_OF_REVERSE"
proof (cases c)
  case (Pair k s)
  show ?thesis
  proof (cases k)
    case FlightLoop
    then show ?thesis using Pair assms by (simp add: StateMachine_enters_reverse)
  next
    case (EnableCommand inPhase)
    then show ?thesis
      using Pair assms Enable_step(3) [of s w]
      by (auto simp: EnableCmdHandler_def split: if_splits)
  next
    case (MenuChoice inItemRef)
    then show ?thesis
      using Pair assms MenuHandlerCallback_step(3) [of inItemRef s w] by auto
  qed
qed

lemma deliver_leaves_reverse:
  assumes "CurrentState w = WAIT_FOR_END_OF_REVERSE"
  shows "CurrentState (deliver w c) = WAIT_FOR_END_OF_REVERSE \<or>
         CurrentState (deliver w c) = WAIT_FOR_USER"
proof (cases c)
  case (Pair k s)
  show ?thesis
  proof (cases k)
    case FlightLoop
    then show ?thesis using Pair assms by (simp add: StateMachine_leaves_reverse)
  next
    case (EnableCommand inPhase)
    then show ?thesis
      using Pair assms Enable_step(3) [of s w] by (auto simp: EnableCmdHandler_def)
  next
    case (MenuChoice inItemRef)
    then show ?thesis
      using Pair assms MenuHandlerCallback_step(3) [of inItemRef s w] by auto
  qed
qed

lemma states_along_first: "CurrentState w \<in> set (states_along w cs)"
  by (cases cs) simp_all

lemma cycle_from_idle: "cycle_from w cs \<Longrightarrow> CurrentState w = WAIT_FOR_USER \<Longrightarrow> cs = []"
  by (cases cs) simp_all

text \<open>
  What the rest of a cycle does to the two counts, from any world in it: in
  \<open>WAIT_FOR_END_OF_REVERSE\<close> one end is still to come; before it either the cycle never
  gets there, begins nothing and ends at most once, or it gets there, begins once and
  ends once.
\<close>

lemma cycle_summary:
  assumes "cycle_from w cs"
  shows "(CurrentState w = WAIT_FOR_END_OF_REVERSE \<longrightarrow>
            begun ReverseThrustCmd (run w cs) = begun ReverseThrustCmd w \<and>
            ended ReverseThrustCmd (run w cs) = ended ReverseThrustCmd w + 1) \<and>
         (CurrentState w \<noteq> WAIT_FOR_END_OF_REVERSE \<longrightarrow>
            WAIT_FOR_END_OF_REVERSE \<notin> set (states_along w cs) \<and>
            begun ReverseThrustCmd (run w cs) = begun ReverseThrustCmd w \<and>
            (ended ReverseThrustCmd (run w cs) = ended ReverseThrustCmd w \<or>
             ended ReverseThrustCmd (run w cs) = ended ReverseThrustCmd w + 1)
            \<or>
            WAIT_FOR_END_OF_REVERSE \<in> set (states_along w cs) \<and>
            begun ReverseThrustCmd (run w cs) = begun ReverseThrustCmd w + 1 \<and>
            ended ReverseThrustCmd (run w cs) = ended ReverseThrustCmd w + 1)"
  using assms
proof (induction cs arbitrary: w)
  case Nil
  then show ?case by (simp add: run_Nil)
next
  case (Cons c cs)
  let ?w = "deliver w c"
  from Cons.prems have active: "CurrentState w \<noteq> WAIT_FOR_USER"
    and rest: "cycle_from ?w cs"
    by simp_all
  note IH = Cons.IH [OF rest]
  note b = deliver_begun [of w c]
  note e = deliver_ended [of w c]
  show ?case
  proof (cases "CurrentState ?w = WAIT_FOR_USER")
    case True
    then have "cs = []"
      using rest by (rule cycle_from_idle [rotated])
    then show ?thesis
      using True active b e by (auto simp: run_Cons run_Nil)
  next
    case False
    show ?thesis
    proof (cases "CurrentState w = WAIT_FOR_END_OF_REVERSE")
      case True
      then have "CurrentState ?w = WAIT_FOR_END_OF_REVERSE"
        using deliver_leaves_reverse [of w c] False by simp
      then show ?thesis
        using True IH b e by (simp add: run_Cons)
    next
      case q: False
      show ?thesis
      proof (cases "CurrentState ?w = WAIT_FOR_END_OF_REVERSE")
        case True
        then have "CurrentState w = APPLY_REVERSE"
          using deliver_enters_reverse [of w c] q by simp
        moreover have "WAIT_FOR_END_OF_REVERSE \<in> set (states_along ?w cs)"
          using states_along_first [of ?w cs] True by simp
        ultimately show ?thesis
          using True q IH b e by (simp add: run_Cons)
      next
        case False
        then show ?thesis
          using q \<open>CurrentState ?w \<noteq> WAIT_FOR_USER\<close> IH b e by (simp add: run_Cons)
      qed
    qed
  qed
qed

text \<open>
  C4, as amended. An activation cycle starts with an eligible \<open>requestActivate()\<close> in
  \<open>WAIT_FOR_USER\<close>, in any world the plugin can be in, and ends when the state is
  \<open>WAIT_FOR_USER\<close> again for the first time. In every cycle the reverse thrust command
  is begun at most once and ended at most once. It is begun, once, exactly in the cycles
  that pass through \<open>WAIT_FOR_END_OF_REVERSE\<close>, and is then ended once. At every point
  of the cycle it is held if and only if the state is \<open>WAIT_FOR_END_OF_REVERSE\<close>.
\<close>

theorem reverse_thrust_per_cycle:
  assumes "CurrentState (run initial pre) = WAIT_FOR_USER"
    and "eligible s0"
    and "cycle_from (requestActivate s0 (run initial pre)) cs"
  shows "let w0 = run initial pre; w1 = requestActivate s0 w0; w' = run w1 cs in
           (WAIT_FOR_END_OF_REVERSE \<notin> set (states_along w1 cs) \<and>
            begun ReverseThrustCmd w' = begun ReverseThrustCmd w0 \<and>
            (ended ReverseThrustCmd w' = ended ReverseThrustCmd w0 \<or>
             ended ReverseThrustCmd w' = ended ReverseThrustCmd w0 + 1)
            \<or>
            WAIT_FOR_END_OF_REVERSE \<in> set (states_along w1 cs) \<and>
            begun ReverseThrustCmd w' = begun ReverseThrustCmd w0 + 1 \<and>
            ended ReverseThrustCmd w' = ended ReverseThrustCmd w0 + 1) \<and>
           (\<forall>n \<le> length cs.
              ReverseThrustHeld (run w1 (take n cs))
                = (CurrentState (run w1 (take n cs)) = WAIT_FOR_END_OF_REVERSE))"
proof -
  let ?w0 = "run initial pre"
  let ?w1 = "Enable s0 ?w0"
  have st: "CurrentState ?w1 \<noteq> WAIT_FOR_END_OF_REVERSE"
    using Enable_eligible(1) [OF assms(1,2)] by simp
  have c: "cycle_from ?w1 cs"
    using assms(3) by (simp add: requestActivate_def)
  have counts: "WAIT_FOR_END_OF_REVERSE \<notin> set (states_along ?w1 cs) \<and>
      begun ReverseThrustCmd (run ?w1 cs) = begun ReverseThrustCmd ?w0 \<and>
      (ended ReverseThrustCmd (run ?w1 cs) = ended ReverseThrustCmd ?w0 \<or>
       ended ReverseThrustCmd (run ?w1 cs) = ended ReverseThrustCmd ?w0 + 1)
      \<or>
      WAIT_FOR_END_OF_REVERSE \<in> set (states_along ?w1 cs) \<and>
      begun ReverseThrustCmd (run ?w1 cs) = begun ReverseThrustCmd ?w0 + 1 \<and>
      ended ReverseThrustCmd (run ?w1 cs) = ended ReverseThrustCmd ?w0 + 1"
    using cycle_summary [OF c] st by (simp add: Enable_step(1,2))
  have held: "ReverseThrustHeld (run ?w1 (take n cs))
                = (CurrentState (run ?w1 (take n cs)) = WAIT_FOR_END_OF_REVERSE)" for n
  proof -
    have "hold_inv (run ?w1 (take n cs))"
      by (intro hold_inv_run hold_inv_Enable hold_inv_initial)
    then show ?thesis
      by (simp add: hold_inv_def)
  qed
  show ?thesis
    using counts held by (simp add: Let_def requestActivate_def)
qed

lemma full_landing_states:
  "states_along (requestActivate on_approach initial) full_landing =
     [START, THROTTLE_DOWN, WAIT_FOR_IDLE_THROTTLE, WAIT_FOR_TOUCHDOWN, APPLY_REVERSE,
      WAIT_FOR_END_OF_REVERSE, WAIT_FOR_USER]"
  by (simp add: run_defs callback_defs host_defs snapshot_defs float_eval config_defs)

lemma full_landing_cycle: "cycle_from (requestActivate on_approach initial) full_landing"
  by (simp add: run_defs callback_defs host_defs snapshot_defs float_eval config_defs)

lemma full_landing_counts:
  "begun ReverseThrustCmd (run (requestActivate on_approach initial) full_landing) = 1"
  "ended ReverseThrustCmd (run (requestActivate on_approach initial) full_landing) = 1"
  by (simp_all add: run_defs callback_defs host_defs snapshot_defs float_eval config_defs
        begun_def ended_def)

theorem reverse_thrust_per_cycle_witness:
  "(let w0 = run initial []; w1 = requestActivate on_approach w0; w' = run w1 full_landing
    in CurrentState w0 = WAIT_FOR_USER \<and> eligible on_approach \<and>
       cycle_from w1 full_landing \<and>
       WAIT_FOR_END_OF_REVERSE \<in> set (states_along w1 full_landing) \<and>
       begun ReverseThrustCmd w0 = 0 \<and> ended ReverseThrustCmd w0 = 0 \<and>
       begun ReverseThrustCmd w' = 1 \<and> ended ReverseThrustCmd w' = 1 \<and>
       (5::nat) \<le> length full_landing \<and>
       ReverseThrustHeld (run w1 (take 5 full_landing)) \<and>
       CurrentState (run w1 (take 5 full_landing)) = WAIT_FOR_END_OF_REVERSE)"
proof -
  have i: "CurrentState (run initial []) = WAIT_FOR_USER"
    by (simp add: run_Nil initial_def)
  have e: "eligible on_approach"
    by (simp add: eligible_def snapshot_defs value_eval)
  have c: "cycle_from (requestActivate on_approach (run initial [])) full_landing"
    by (simp add: run_Nil full_landing_cycle)
  have z: "begun ReverseThrustCmd initial = 0" "ended ReverseThrustCmd initial = 0"
    by (simp_all add: begun_def ended_def initial_def)
  have l: "(5::nat) \<le> length full_landing"
    by (simp add: full_landing_def)
  have s: "CurrentState (run (requestActivate on_approach initial) (take 5 full_landing))
             = WAIT_FOR_END_OF_REVERSE"
    by (simp add: run_defs callback_defs host_defs snapshot_defs float_eval config_defs)
  from i e c z l s reverse_thrust_per_cycle [OF i e c]
  show ?thesis
    by (simp add: Let_def run_Nil full_landing_states full_landing_counts)
qed

text \<open>
  C4 as it is written fails: in the cycle of a landing that is at 55 when all wheels are
  on the ground, \<open>APPLY_REVERSE\<close> goes straight to \<open>WAIT_FOR_USER\<close>, and the reverse
  thrust command is neither begun nor ended.
\<close>

theorem reverse_thrust_never_begun_counterexample:
  "CurrentState initial = WAIT_FOR_USER \<and> eligible at_idle \<and>
   cycle_from (requestActivate at_idle initial) slow_landing \<and>
   states_along (requestActivate at_idle initial) slow_landing
     = [START, WAIT_FOR_TOUCHDOWN, APPLY_REVERSE, WAIT_FOR_USER] \<and>
   begun ReverseThrustCmd initial = 0 \<and>
   begun ReverseThrustCmd (run (requestActivate at_idle initial) slow_landing) = 0 \<and>
   ended ReverseThrustCmd (run (requestActivate at_idle initial) slow_landing) = 0"
proof -
  have "eligible at_idle"
    by (simp add: eligible_def snapshot_defs value_eval)
  moreover have "cycle_from (requestActivate at_idle initial) slow_landing"
    by (simp add: run_defs callback_defs host_defs snapshot_defs float_eval config_defs)
  moreover have "states_along (requestActivate at_idle initial) slow_landing
     = [START, WAIT_FOR_TOUCHDOWN, APPLY_REVERSE, WAIT_FOR_USER]"
    by (simp add: run_defs callback_defs host_defs snapshot_defs float_eval config_defs)
  moreover have
    "begun ReverseThrustCmd (run (requestActivate at_idle initial) slow_landing) = 0"
    "ended ReverseThrustCmd (run (requestActivate at_idle initial) slow_landing) = 0"
    by (simp_all add: run_defs callback_defs host_defs snapshot_defs float_eval config_defs
          begun_def ended_def)
  ultimately show ?thesis
    by (simp add: initial_def begun_def)
qed

end
